theory Spec2Isabelle
  imports Complex_Main "HOL-Library.Product_Lexorder"
begin


section \<open>Python and NumPy primitives\<close>

text \<open>
  Floating-point numbers are modelled as \<^typ>\<open>real\<close>, Python integers as \<^typ>\<open>int\<close>,
  list positions and loop indices as \<^typ>\<open>nat\<close>. Exceptions are values of
  \<open>py_error + 'a\<close>; \<open>Inl\<close> is the raised exception.
\<close>

datatype py_error = ZeroDivisionError | ValueError | IndexError

definition bind_res :: "py_error + 'a \<Rightarrow> ('a \<Rightarrow> py_error + 'b) \<Rightarrow> py_error + 'b" where
  "bind_res m f = (case m of Inl e \<Rightarrow> Inl e | Inr x \<Rightarrow> f x)"

text \<open>\<open>np.clip(x, lo, hi)\<close> is \<open>minimum(maximum(x, lo), hi)\<close>, also when \<open>lo > hi\<close>.\<close>

definition clip :: "'a::linorder \<Rightarrow> 'a \<Rightarrow> 'a \<Rightarrow> 'a" where
  "clip x lo hi = min (max x lo) hi"

text \<open>Python's \<open>round\<close> on a float: to the nearest integer, ties to the even one.\<close>

definition py_round :: "real \<Rightarrow> int" where
  "py_round x = (let f = \<lfloor>x\<rfloor>; d = x - of_int f in
     if d < 1 / 2 then f else if 1 / 2 < d then f + 1 else if even f then f else f + 1)"

subsection \<open>Random generators\<close>

text \<open>
  A generator is a tape of draws and a read position. Each cell of the tape holds the
  raw integer the bit generator would return and a standard normal variate; a draw reads
  one cell and advances. Every value a library call can return is reached by some tape,
  so a statement for all tapes is a statement for all seeds. The three seeding functions
  of the libraries (\<open>np.random.default_rng\<close>, the \<open>RandomState\<close> pandas builds from
  \<open>random_state=\<close>, and \<open>random.seed\<close>) are parameters.
\<close>

type_synonym tape = "nat \<Rightarrow> nat \<times> real"
type_synonym gen = "tape \<times> nat"

record prng =
  default_rng :: "int \<Rightarrow> tape"
  RandomState :: "int \<Rightarrow> tape"
  random_seed :: "int \<Rightarrow> tape"

definition next_raw :: "gen \<Rightarrow> nat \<times> gen" where
  "next_raw g = (fst (fst g (snd g)), (fst g, Suc (snd g)))"

definition next_std :: "gen \<Rightarrow> real \<times> gen" where
  "next_std g = (snd (fst g (snd g)), (fst g, Suc (snd g)))"

text \<open>\<open>rng.random()\<close> and \<open>random.random()\<close>: 53 random bits scaled into \<open>[0, 1)\<close>.\<close>

definition random_u :: "gen \<Rightarrow> real \<times> gen" where
  "random_u g = (let (r, g') = next_raw g in (real (r mod 2 ^ 53) / 2 ^ 53, g'))"

text \<open>\<open>rng.integers(lo, hi)\<close>, called in the source with \<open>lo < hi\<close> only.\<close>

definition rng_integers :: "int \<Rightarrow> int \<Rightarrow> gen \<Rightarrow> int \<times> gen" where
  "rng_integers lo hi g = (let (r, g') = next_raw g in (lo + int (r mod nat (hi - lo)), g'))"

text \<open>\<open>rng.poisson(lam)\<close>: any natural number; the source passes \<open>lam \<ge> 0.01\<close>.\<close>

definition rng_poisson :: "real \<Rightarrow> gen \<Rightarrow> int \<times> gen" where
  "rng_poisson lam g = (let (r, g') = next_raw g in (int r, g'))"

definition rng_normal :: "real \<Rightarrow> real \<Rightarrow> gen \<Rightarrow> real \<times> gen" where
  "rng_normal loc scale g = (let (z, g') = next_std g in (loc + scale * z, g'))"

definition rng_lognormal :: "real \<Rightarrow> real \<Rightarrow> gen \<Rightarrow> real \<times> gen" where
  "rng_lognormal mean sigma g = (let (z, g') = next_std g in (exp (mean + sigma * z), g'))"

definition rng_uniform :: "real \<Rightarrow> real \<Rightarrow> gen \<Rightarrow> real \<times> gen" where
  "rng_uniform lo hi g = (let (u, g') = random_u g in (lo + (hi - lo) * u, g'))"

text \<open>\<open>itertools.accumulate\<close>: the running sums.\<close>

fun accumulate_from :: "real \<Rightarrow> real list \<Rightarrow> real list" where
  "accumulate_from acc [] = []"
| "accumulate_from acc (x # xs) = (acc + x) # accumulate_from (acc + x) xs"

definition accumulate :: "real list \<Rightarrow> real list" where
  "accumulate xs = accumulate_from 0 xs"

text \<open>\<open>bisect.bisect(a, x, lo, hi)\<close>, the binary search of the standard library.\<close>

function bisect :: "real list \<Rightarrow> real \<Rightarrow> nat \<Rightarrow> nat \<Rightarrow> nat" where
  "bisect a x lo hi =
     (if lo < hi then
        (let mid = (lo + hi) div 2 in
         if x < a ! mid then bisect a x lo mid else bisect a x (mid + 1) hi)
      else lo)"
  by pat_completeness auto
termination
  by (relation "measure (\<lambda>(a, x, lo, hi). hi - lo)") auto

declare bisect.simps [simp del]

text \<open>
  \<open>random.choices(population, weights=weights, k=1)[0]\<close>: raises \<open>ValueError\<close> when the
  weights do not sum to a positive number, else bisects the cumulative weights at
  \<open>random() * total\<close> between \<open>0\<close> and \<open>n - 1\<close>.
\<close>

definition choices :: "'a list \<Rightarrow> real list \<Rightarrow> gen \<Rightarrow> py_error + ('a \<times> gen)" where
  "choices population weights p =
     (let cum_weights = accumulate weights; total = last cum_weights in
      if total \<le> 0 then Inl ValueError
      else let (u, p') = random_u p; hi = length population - 1 in
           Inr (population ! bisect cum_weights (u * total) 0 hi, p'))"

text \<open>
  \<open>rng.choice(a, p=p)\<close>: the position of the drawn uniform in the normalised cumulative
  distribution (\<open>searchsorted(..., side='right')\<close>).
\<close>

definition rng_choice :: "'a list \<Rightarrow> real list \<Rightarrow> gen \<Rightarrow> 'a \<times> gen" where
  "rng_choice a p g =
     (let cdf = map (\<lambda>x. x / last (accumulate p)) (accumulate p); (u, g') = random_u g in
      (a ! length (filter (\<lambda>x. x \<le> u) cdf), g'))"

text \<open>
  \<open>df.sample(n=k, replace=False, random_state=s)\<close>: \<open>k\<close> distinct rows, in drawn order.
  The source always has \<open>k \<le> len(df)\<close>.
\<close>

fun sample_rows :: "nat \<Rightarrow> 'a list \<Rightarrow> gen \<Rightarrow> 'a list" where
  "sample_rows 0 xs g = []"
| "sample_rows (Suc k) xs g =
     (if xs = [] then []
      else let (r, g') = next_raw g; i = r mod length xs in
           xs ! i # sample_rows k (take i xs @ drop (Suc i) xs) g')"

section \<open>Data model\<close>

datatype bet_type = Moneyline | Spread | Total | Parlay
datatype selection = Home | Away | Over | Under
datatype settled = Win | Lose | Push

text \<open>The \<open>CustomerProfile\<close> dataclass, one row of the customers frame.\<close>

record customer =
  customer_id :: int
  segment :: string
  freq :: real
  avg_stake :: real
  pref_moneyline :: real
  pref_spread :: real
  pref_total :: real
  pref_parlay :: real
  promo_sensitivity :: real

text \<open>A row of \<open>dim_event\<close>; dates are day numbers, SQL NULL is \<open>None\<close>.\<close>

record event =
  event_id :: int
  season :: int
  week :: "int option"
  game_date :: int
  is_playoff :: bool
  home_score :: int
  away_score :: int
  spread_line :: "real option"
  total_line :: "real option"

text \<open>The churn configuration dictionary, keys as in \<open>DEFAULT_CHURN_CONFIG\<close>.\<close>

record churn_config =
  base_weekly_churn :: "string \<rightharpoonup> real"
  alpha :: real
  churn_plateau_mult :: real
  early_churn_mult :: "string \<rightharpoonup> real"
  mid_churn_mult :: "string \<rightharpoonup> real"
  tail_churn_mult :: "string \<rightharpoonup> real"
  inactivity_mult :: real
  negative_net_mult :: real
  promo_hunter_post_promo_mult :: real
  promo_hunter_post_promo_weeks :: "int list"
  min_churn :: real
  max_churn :: real

definition DEFAULT_CHURN_CONFIG :: churn_config where
  "DEFAULT_CHURN_CONFIG = \<lparr>
     base_weekly_churn =
       [''sharp'' \<mapsto> 0.020, ''regular'' \<mapsto> 0.050, ''casual'' \<mapsto> 0.080, ''promo_hunter'' \<mapsto> 0.120],
     alpha = 0.05,
     churn_plateau_mult = 0.68,
     early_churn_mult =
       [''sharp'' \<mapsto> 1.15, ''regular'' \<mapsto> 1.25, ''casual'' \<mapsto> 1.40, ''promo_hunter'' \<mapsto> 1.60],
     mid_churn_mult = [''regular'' \<mapsto> 2.00, ''casual'' \<mapsto> 2.40, ''promo_hunter'' \<mapsto> 2.90],
     tail_churn_mult = [''regular'' \<mapsto> 1.35, ''casual'' \<mapsto> 1.70, ''promo_hunter'' \<mapsto> 2.00],
     inactivity_mult = 2.5,
     negative_net_mult = 1.45,
     promo_hunter_post_promo_mult = 1.20,
     promo_hunter_post_promo_weeks = [1, 2, 3, 4],
     min_churn = 0.006,
     max_churn = 0.65 \<rparr>"

text \<open>\<open>d.get(key, default)\<close>.\<close>

definition dict_get :: "('k \<rightharpoonup> 'v) \<Rightarrow> 'k \<Rightarrow> 'v \<Rightarrow> 'v" where
  "dict_get d k dflt = (case d k of Some v \<Rightarrow> v | None \<Rightarrow> dflt)"

text \<open>Rows of the three ledgers.\<close>

record bet_row =
  b_bet_id :: int
  b_customer_id :: int
  b_bet_datetime :: real
  b_bet_type :: bet_type
  b_stake_amount :: real
  b_odds_decimal_avg :: real
  b_gross_payout :: real
  b_status :: settled

record leg_row =
  l_bet_leg_id :: int
  l_bet_id :: int
  l_leg_no :: nat
  l_event_id :: int
  l_market_type :: bet_type
  l_selection :: selection
  l_line_value :: "real option"
  l_american_odds :: int
  l_decimal_odds :: real
  l_is_win :: bool
  l_is_push :: bool
  l_settled_result :: settled

record cost_row =
  c_cost_id :: int
  c_bet_id :: int
  c_promo_cost :: real
  c_payment_fee :: real
  c_tax :: real

text \<open>
  One entry of the run's log: the bet, its legs and its cost row, which the source appends
  to \<open>bet_rows\<close>, \<open>leg_rows\<close> and \<open>cost_rows\<close> together, with the week index and the
  customer's tenure at which the bet was placed.
\<close>

record entry =
  e_wk_idx :: nat
  e_weeks_active :: int
  e_bet :: bet_row
  e_legs :: "leg_row list"
  e_cost :: cost_row

datatype trace_item = Churned nat | Emitted entry

text \<open>
  The variables of \<open>simulate_ledger\<close> that its loops update: the two generators
  (\<open>rng\<close> and the \<open>random\<close> module), the id counters, the per-customer run state and the
  per-week accumulators.
\<close>

record sim_state =
  rng :: gen
  pyrand :: gen
  bet_id :: int
  leg_id :: int
  weeks_active :: int
  last_bet_week_idx :: "nat option"
  has_churned :: bool
  promo_eligible :: bool
  last_promo_week_idx :: "nat option"
  promo_week_history :: "nat list"
  negative_net_streak :: int
  promo_effect_weeks_remaining :: int
  week_net_profit :: real
  promo_given_this_week :: bool

section \<open>The ledger simulator\<close>

subsection \<open>The event calendar\<close>

definition week_int :: "event \<Rightarrow> int" where
  "week_int ev = (case week ev of Some wk \<Rightarrow> wk | None \<Rightarrow> 0)"

definition total_points :: "event \<Rightarrow> int" where
  "total_points ev = home_score ev + away_score ev"

definition home_margin :: "event \<Rightarrow> int" where
  "home_margin ev = home_score ev - away_score ev"

text \<open>The query on \<open>dim_event\<close>, the rows with a week, sorted.\<close>

definition load_events :: "event list \<Rightarrow> event list" where
  "load_events dim_event =
     sort_key (\<lambda>ev. (season ev, week_int ev, game_date ev, event_id ev))
       (filter (\<lambda>ev. week ev \<noteq> None) (filter (\<lambda>ev. 2010 \<le> season ev) dim_event))"

definition week_keys_of :: "event list \<Rightarrow> (int \<times> int) list" where
  "week_keys_of events = sort (remdups (map (\<lambda>ev. (season ev, week_int ev)) events))"

definition events_by_week :: "event list \<Rightarrow> int \<times> int \<Rightarrow> event list" where
  "events_by_week events wk = filter (\<lambda>ev. season ev = fst wk \<and> week_int ev = snd wk) events"

subsection \<open>One leg\<close>

definition american_to_decimal :: "int \<Rightarrow> py_error + real" where
  "american_to_decimal odds =
     (if odds > 0 then Inr (1 + real_of_int odds / 100)
      else if odds = 0 then Inl ZeroDivisionError
      else Inr (1 + 100 / real_of_int \<bar>odds\<bar>))"

definition other_side :: "selection \<Rightarrow> selection" where
  "other_side s = (if s = Home then Away else Home)"

definition leg_spread ::
  "real \<Rightarrow> int \<Rightarrow> gen \<Rightarrow> (selection \<times> real option \<times> settled \<times> int) \<times> gen" where
  "leg_spread spread_line' home_margin' g =
     (let favorite_side = (if spread_line' < 0 then Home else Away);
          (u, g1) = random_u g;
          selection = (if u < 0.57 then favorite_side else other_side favorite_side);
          (z, g2) = rng_normal 0 0.55 g1;
          line_shift = clip z (- 1.5) 1.5;
          bet_line = (if selection = Home then spread_line' + line_shift
                      else - spread_line' + line_shift);
          margin_vs_line = (if selection = Home then real_of_int home_margin' + bet_line
                            else - real_of_int home_margin' + bet_line);
          settled = (if margin_vs_line > 0 then Win
                     else if margin_vs_line < 0 then Lose else Push);
          (x, g3) = rng_normal 0 8 g2;
          american_odds = clip (py_round (- 112 + x)) (- 145) 116
      in ((selection, Some bet_line, settled, american_odds), g3))"

definition leg_total ::
  "real \<Rightarrow> int \<Rightarrow> gen \<Rightarrow> (selection \<times> real option \<times> settled \<times> int) \<times> gen" where
  "leg_total total_line' total_points' g =
     (let (u, g1) = random_u g;
          selection = (if u < 0.56 then Over else Under);
          (z, g2) = rng_normal 0 0.7 g1;
          bet_line = total_line' + clip z (- 1.8) 1.8;
          delta = real_of_int total_points' - bet_line;
          settled = (if selection = Over
                     then (if delta > 0 then Win else if delta < 0 then Lose else Push)
                     else (if delta < 0 then Win else if delta > 0 then Lose else Push));
          (x, g3) = rng_normal 0 9 g2;
          american_odds = clip (py_round (- 114 + x)) (- 155) 120
      in ((selection, Some bet_line, settled, american_odds), g3))"

definition leg_moneyline ::
  "real \<Rightarrow> int \<Rightarrow> gen \<Rightarrow> (selection \<times> real option \<times> settled \<times> int) \<times> gen" where
  "leg_moneyline spread_line' home_margin' g =
     (let favorite_side = (if spread_line' < 0 then Home else Away);
          (u, g1) = random_u g;
          selection = (if u < 0.58 then favorite_side else other_side favorite_side);
          abs_spread = \<bar>spread_line'\<bar>;
          (x, g2) = rng_normal 0 14 g1;
          fav_odds = clip (py_round (- 140 - abs_spread * 18 + x)) (- 395) (- 113);
          (y, g3) = rng_normal 0 15 g2;
          dog_odds = clip (py_round (109 + abs_spread * 19 + y)) 100 315;
          american_odds = (if selection = favorite_side then fav_odds else dog_odds);
          home_won = (home_margin' > 0);
          settled = (if selection = Home then (if home_won then Win else Lose)
                     else (if \<not> home_won then Win else Lose))
      in ((selection, None, settled, american_odds), g3))"

definition simulate_leg ::
  "bet_type \<Rightarrow> event \<Rightarrow> int \<Rightarrow> int \<Rightarrow> nat \<Rightarrow> gen \<Rightarrow> gen \<Rightarrow> py_error + (leg_row \<times> gen \<times> gen)" where
  "simulate_leg bt ev bid lid leg_no g p =
     bind_res
       (if bt \<noteq> Parlay then Inr (bt, p)
        else choices [Moneyline, Spread, Total] [0.25, 0.45, 0.30] p)
       (\<lambda>(market_type, p1).
          let (total_line', g1) =
                (case total_line ev of Some t \<Rightarrow> (t, g)
                 | None \<Rightarrow> (let (x, g') = rng_normal 0 6 g in (clip (43 + x) 31 59, g')));
              (spread_line', g2) =
                (case spread_line ev of Some s \<Rightarrow> (s, g1)
                 | None \<Rightarrow> (let (x, g') = rng_normal 0 5 g1 in (clip x (- 14) 14, g')));
              ((selection, bet_line, settled, american_odds), g3) =
                (if market_type = Spread then leg_spread spread_line' (home_margin ev) g2
                 else if market_type = Total then leg_total total_line' (total_points ev) g2
                 else leg_moneyline spread_line' (home_margin ev) g2)
          in bind_res (american_to_decimal american_odds)
               (\<lambda>dec. Inr (\<lparr> l_bet_leg_id = lid, l_bet_id = bid, l_leg_no = leg_no,
                              l_event_id = event_id ev, l_market_type = market_type,
                              l_selection = selection, l_line_value = bet_line,
                              l_american_odds = american_odds, l_decimal_odds = dec,
                              l_is_win = (settled = Win), l_is_push = (settled = Push),
                              l_settled_result = settled \<rparr>, g3, p1)))"

fun simulate_legs ::
  "bet_type \<Rightarrow> event list \<Rightarrow> int \<Rightarrow> int \<Rightarrow> nat \<Rightarrow> gen \<Rightarrow> gen
     \<Rightarrow> py_error + (leg_row list \<times> int \<times> gen \<times> gen)" where
  "simulate_legs bt [] bid lid leg_no g p = Inr ([], lid, g, p)"
| "simulate_legs bt (ev # evs) bid lid leg_no g p =
     bind_res (simulate_leg bt ev bid lid leg_no g p)
       (\<lambda>(row, g1, p1).
          bind_res (simulate_legs bt evs bid (lid + 1) (Suc leg_no) g1 p1)
            (\<lambda>(rows, lid', g2, p2). Inr (row # rows, lid', g2, p2)))"

subsection \<open>One bet\<close>

definition draw_stake :: "customer \<Rightarrow> gen \<Rightarrow> py_error + (real \<times> gen)" where
  "draw_stake c g =
     (if avg_stake c \<le> 0 then Inl ValueError
      else let (x, g') = rng_lognormal (ln (avg_stake c)) 0.55 g in Inr (clip x 5 2000, g'))"

definition pick_leg_events ::
  "prng \<Rightarrow> bet_type \<Rightarrow> event list \<Rightarrow> int \<Rightarrow> gen \<Rightarrow> event list \<times> gen" where
  "pick_leg_events w bt week_events event_id_base g =
     (if bt = Parlay then
        (let (n_legs, g1) = rng_integers 2 5 g;
             leg_sample_size = min (nat n_legs) (length week_events);
             (s, g2) = rng_integers 1 10000000 g1
         in (sample_rows leg_sample_size week_events (RandomState w s, 0), g2))
      else (filter (\<lambda>ev. event_id ev = event_id_base) week_events, g))"

definition parlay_mult :: "(settled \<times> real) list \<Rightarrow> real" where
  "parlay_mult leg_results =
     fold (\<lambda>(r, dec) mult. mult * (if r = Win then dec else 1)) leg_results 1"

definition settle_bet ::
  "bet_type \<Rightarrow> real \<Rightarrow> (settled \<times> real) list \<Rightarrow> py_error + (real \<times> settled \<times> real)" where
  "settle_bet bt stake leg_results =
     (if bt = Parlay then
        (let has_loss = list_ex (\<lambda>(r, dec). r = Lose) leg_results;
             (payout, status) =
               (if has_loss then (0, Lose)
                else (stake * parlay_mult leg_results,
                      if list_all (\<lambda>(r, dec). r = Push) leg_results then Push else Win));
             avg_odds = sum_list (map snd leg_results) / real (length leg_results)
         in Inr (payout, status, avg_odds))
      else
        (case leg_results of
           [] \<Rightarrow> Inl IndexError
         | (r, dec) # rest \<Rightarrow>
             Inr (if r = Win then (stake * dec, Win, dec)
                  else if r = Push then (stake, Push, dec)
                  else (0, Lose, dec))))"

definition promo_eligibility :: "string \<rightharpoonup> real" where
  "promo_eligibility =
     [''sharp'' \<mapsto> 0.45, ''regular'' \<mapsto> 0.72, ''casual'' \<mapsto> 0.68, ''promo_hunter'' \<mapsto> 0.40]"

definition promo_base_rate :: "string \<rightharpoonup> real" where
  "promo_base_rate =
     [''sharp'' \<mapsto> 0.050, ''regular'' \<mapsto> 0.095, ''casual'' \<mapsto> 0.080, ''promo_hunter'' \<mapsto> 0.080]"

definition promo_cost_scale :: "string \<rightharpoonup> real" where
  "promo_cost_scale =
     [''sharp'' \<mapsto> 0.90, ''regular'' \<mapsto> 1.00, ''casual'' \<mapsto> 0.95, ''promo_hunter'' \<mapsto> 0.70]"

definition promo_prob :: "customer \<Rightarrow> nat \<Rightarrow> sim_state \<Rightarrow> real" where
  "promo_prob c wk_idx st =
     (let recent_promos_8w =
            length (filter (\<lambda>p_wk. int wk_idx - int p_wk \<le> 8) (promo_week_history st));
          p0 = dict_get promo_base_rate (segment c) 0.08 + 0.05 * promo_sensitivity c;
          p1 = p0 * max 0.25 (1.0 - 0.22 * real recent_promos_8w);
          p2 = (if weeks_active st \<ge> 20 then p1 * 0.45
                else if weeks_active st \<ge> 8 then p1 * 0.70 else p1);
          p3 = (if negative_net_streak st \<ge> 2 then p2 * 0.75 else p2)
      in clip p3 0.010 0.45)"

definition tenure_cost_mult :: "int \<Rightarrow> real" where
  "tenure_cost_mult wa = (if wa < 8 then 1.00 else if wa < 20 then 0.45 else 0.30)"

text \<open>The cap fraction of the promotion-decision step, by tenure bucket.\<close>

definition promo_cap :: "int \<Rightarrow> real" where
  "promo_cap wa = (if wa < 8 then 0.14 else if wa < 20 then 0.09 else 0.06)"

definition promo_decision :: "customer \<Rightarrow> nat \<Rightarrow> real \<Rightarrow> sim_state \<Rightarrow> real \<times> sim_state" where
  "promo_decision c wk_idx stake st =
     (let seg = segment c;
          (trigger0, g1) =
            (if promo_eligible st \<and> \<not> promo_given_this_week st
             then (let (u, g') = random_u (rng st) in (u < promo_prob c wk_idx st, g'))
             else (False, rng st));
          (promo_trigger, g2) =
            (if trigger0 \<and> seg = ''promo_hunter'' \<and> weeks_active st \<ge> 10
             then (let (u, g') = random_u g1 in (u < 0.45, g'))
             else (trigger0, g1));
          (promo_cost0, g3) =
            (if promo_trigger
             then (let (x, g') = rng_uniform 0.05 0.18 g2 in
                   (stake * clip (x * promo_sensitivity c * dict_get promo_cost_scale seg 1.0) 0.0 0.20
                      * tenure_cost_mult (weeks_active st), g'))
             else (0.0, g2));
          promo_cost1 = min promo_cost0 (stake * promo_cap (weeks_active st));
          promo_cost = (if promo_trigger \<and> seg = ''promo_hunter''
                        then min promo_cost1 (stake * 0.06) else promo_cost1)
      in if promo_trigger then
           (let (d, g4) = (if seg \<noteq> ''promo_hunter'' then rng_integers 5 11 g3
                           else rng_integers 3 6 g3)
            in (promo_cost,
                st\<lparr> rng := g4, last_promo_week_idx := Some wk_idx,
                    promo_week_history := promo_week_history st @ [wk_idx],
                    promo_given_this_week := True,
                    promo_effect_weeks_remaining := max (promo_effect_weeks_remaining st) d \<rparr>))
         else (promo_cost, st\<lparr> rng := g3 \<rparr>))"

definition simulate_bet ::
  "prng \<Rightarrow> customer \<Rightarrow> nat \<Rightarrow> event list \<Rightarrow> sim_state \<Rightarrow> py_error + (entry \<times> sim_state)" where
  "simulate_bet w c wk_idx week_events st =
     bind_res
       (choices [Moneyline, Spread, Total, Parlay]
          [pref_moneyline c, pref_spread c, pref_total c, pref_parlay c] (pyrand st))
       (\<lambda>(bet_type, p1).
     bind_res (draw_stake c (rng st))
       (\<lambda>(stake, g1).
          let (i, g2) = rng_integers 0 (int (length week_events)) g1;
              bet_time_event = week_events ! nat i;
              event_id_base = event_id bet_time_event;
              (hours, g3) = rng_uniform 1 96 g2;
              bet_date = real_of_int (game_date bet_time_event) - hours / 24;
              (leg_events, g4) = pick_leg_events w bet_type week_events event_id_base g3
          in
     bind_res (simulate_legs bet_type leg_events (bet_id st) (leg_id st) 1 g4 p1)
       (\<lambda>(legs, leg_id', g5, p2).
     bind_res (settle_bet bet_type stake (map (\<lambda>l. (l_settled_result l, l_decimal_odds l)) legs))
       (\<lambda>(payout, status, avg_odds).
          let gross_profit = stake - payout;
              (promo_cost, st1) =
                promo_decision c wk_idx stake (st\<lparr> rng := g5, pyrand := p2, leg_id := leg_id' \<rparr>);
              payment_fee = stake * 0.012;
              tax = max 0.0 gross_profit * 0.03;
              net_profit = gross_profit - promo_cost - payment_fee - tax
          in Inr (\<lparr> e_wk_idx = wk_idx, e_weeks_active = weeks_active st,
                     e_bet = \<lparr> b_bet_id = bet_id st, b_customer_id = customer_id c,
                               b_bet_datetime = bet_date, b_bet_type = bet_type,
                               b_stake_amount = stake, b_odds_decimal_avg = avg_odds,
                               b_gross_payout = payout, b_status = status \<rparr>,
                     e_legs = legs,
                     e_cost = \<lparr> c_cost_id = bet_id st, c_bet_id = bet_id st,
                                c_promo_cost = promo_cost, c_payment_fee = payment_fee,
                                c_tax = tax \<rparr> \<rparr>,
                  st1\<lparr> week_net_profit := week_net_profit st1 + net_profit,
                       bet_id := bet_id st1 + 1,
                       last_bet_week_idx := Some wk_idx \<rparr>)))))"

fun bets_loop ::
  "prng \<Rightarrow> customer \<Rightarrow> nat \<Rightarrow> event list \<Rightarrow> nat \<Rightarrow> sim_state
     \<Rightarrow> py_error + (entry list \<times> sim_state)" where
  "bets_loop w c wk_idx week_events 0 st = Inr ([], st)"
| "bets_loop w c wk_idx week_events (Suc n) st =
     bind_res (simulate_bet w c wk_idx week_events st)
       (\<lambda>(e, st1).
          bind_res (bets_loop w c wk_idx week_events n st1)
            (\<lambda>(es, st2). Inr (e # es, st2)))"

subsection \<open>The hazard churn model\<close>

text \<open>
  The churn probability of the week at index \<open>wk_idx\<close> for a customer with at least one
  week of tenure: the segment's base rate, the multiplicative modifiers in the source's
  order, and the final \<open>np.clip\<close>.
\<close>

definition churn_prob :: "churn_config \<Rightarrow> string \<Rightarrow> nat \<Rightarrow> sim_state \<Rightarrow> real" where
  "churn_prob cfg seg wk_idx st =
     (let wa = weeks_active st;
          tenure_mult = churn_plateau_mult cfg
            + (1.0 - churn_plateau_mult cfg) * exp (- alpha cfg * real_of_int wa);
          p0 = dict_get (base_weekly_churn cfg) seg 0.06 * tenure_mult;
          p1 = (if wa \<le> 1 then p0 * dict_get (early_churn_mult cfg) seg 1.8
                else if 2 \<le> wa \<and> wa \<le> 6 then p0 * dict_get (mid_churn_mult cfg) seg 1.0
                else if 7 \<le> wa \<and> wa \<le> 12 then p0 * dict_get (tail_churn_mult cfg) seg 1.0
                else p0);
          p2 = (if (case last_bet_week_idx st of None \<Rightarrow> False
                    | Some l \<Rightarrow> int wk_idx - int l \<ge> 2)
                then p1 * inactivity_mult cfg else p1);
          p3 = (if negative_net_streak st \<ge> 2 then p2 * negative_net_mult cfg else p2);
          p4 = (if seg = ''promo_hunter''
                   \<and> (case last_promo_week_idx st of None \<Rightarrow> False
                       | Some l \<Rightarrow> int wk_idx - int l \<in> set (promo_hunter_post_promo_weeks cfg))
                then p3 * promo_hunter_post_promo_mult cfg else p3);
          p5 = (if promo_effect_weeks_remaining st > 0
                then p4 * (if seg \<noteq> ''promo_hunter'' then 0.93 else 0.97) else p4)
      in clip p5 (min_churn cfg) (max_churn cfg))"

subsection \<open>One week of one customer\<close>

text \<open>The updates after the bets of a week in which the customer placed a bet.\<close>

definition week_end :: "sim_state \<Rightarrow> sim_state" where
  "week_end st =
     st\<lparr> negative_net_streak :=
           (if week_net_profit st < 0 then min (negative_net_streak st + 1) 8 else 0),
         promo_effect_weeks_remaining := max 0 (promo_effect_weeks_remaining st - 1),
         weeks_active := weeks_active st + 1 \<rparr>"

text \<open>The updates of a week with events in which the Poisson draw gave no bet.\<close>

definition week_no_bets :: "nat \<Rightarrow> sim_state \<Rightarrow> sim_state" where
  "week_no_bets wk_idx st =
     st\<lparr> negative_net_streak :=
           (if (case last_bet_week_idx st of None \<Rightarrow> False
                | Some l \<Rightarrow> int wk_idx - int l \<ge> 2)
            then min (negative_net_streak st + 1) 6 else negative_net_streak st),
         weeks_active := weeks_active st + 1 \<rparr>"

text \<open>
  The number of bets of the week: a Poisson draw, at least one bet in the customer's
  first week.
\<close>

definition draw_n_bets :: "customer \<Rightarrow> int \<Rightarrow> sim_state \<Rightarrow> int \<times> gen" where
  "draw_n_bets c week' st =
     (let intensity = (if week' \<ge> 19 then 0.75 else 1.0);
          lam0 = max 0.01 (freq c * intensity);
          weekly_lambda =
            (if promo_effect_weeks_remaining st > 0
             then lam0 * (if segment c \<noteq> ''promo_hunter'' then 1.09 else 1.04) else lam0)
      in if weeks_active st = 0
         then (let (k, g') = rng_poisson (max 0.20 weekly_lambda) (rng st) in (max 1 k, g'))
         else rng_poisson weekly_lambda (rng st))"

text \<open>
  The churn check at the head of the week loop's body: no draw in the first week; else
  one uniform draw against the churn probability.
\<close>

definition churn_check :: "churn_config \<Rightarrow> customer \<Rightarrow> nat \<Rightarrow> sim_state \<Rightarrow> bool \<times> sim_state" where
  "churn_check cfg c wk_idx st =
     (if weeks_active st > 0
      then (let (u, g') = random_u (rng st) in
            (u < churn_prob cfg (segment c) wk_idx st, st\<lparr> rng := g' \<rparr>))
      else (False, st))"

definition week_step ::
  "prng \<Rightarrow> churn_config \<Rightarrow> event list \<Rightarrow> (int \<times> int) list \<Rightarrow> customer \<Rightarrow> nat \<Rightarrow> sim_state
     \<Rightarrow> py_error + (trace_item list \<times> sim_state)" where
  "week_step w cfg events week_keys c wk_idx st =
     (let (churns, st1) = churn_check cfg c wk_idx st in
      if churns then Inr ([Churned wk_idx], st1\<lparr> has_churned := True \<rparr>)
      else
        (let week_key = week_keys ! wk_idx;
             week_events = events_by_week events week_key
         in if week_events = [] then Inr ([], st1\<lparr> weeks_active := weeks_active st1 + 1 \<rparr>)
            else
              (let (n_bets_week, g2) = draw_n_bets c (snd week_key) st1;
                   st2 = st1\<lparr> rng := g2 \<rparr>
               in if n_bets_week \<le> 0 then Inr ([], week_no_bets wk_idx st2)
                  else
                    bind_res
                      (bets_loop w c wk_idx week_events (nat n_bets_week)
                         (st2\<lparr> week_net_profit := 0.0, promo_given_this_week := False \<rparr>))
                      (\<lambda>(es, st3). Inr (map Emitted es, week_end st3)))))"

text \<open>
  The loop \<open>for wk_idx in range(start_idx, len(week_keys))\<close>, with its \<open>break\<close> once the
  customer has churned.
\<close>

fun weeks_loop ::
  "prng \<Rightarrow> churn_config \<Rightarrow> event list \<Rightarrow> (int \<times> int) list \<Rightarrow> customer \<Rightarrow> nat list \<Rightarrow> sim_state
     \<Rightarrow> py_error + (trace_item list \<times> sim_state)" where
  "weeks_loop w cfg events week_keys c [] st = Inr ([], st)"
| "weeks_loop w cfg events week_keys c (wk_idx # rest) st =
     (if has_churned st then Inr ([], st)
      else
        bind_res (week_step w cfg events week_keys c wk_idx st)
          (\<lambda>(tr, st1).
             bind_res (weeks_loop w cfg events week_keys c rest st1)
               (\<lambda>(tr', st2). Inr (tr @ tr', st2))))"

subsection \<open>All customers\<close>

definition simulate_customer ::
  "prng \<Rightarrow> churn_config \<Rightarrow> event list \<Rightarrow> (int \<times> int) list \<Rightarrow> customer \<Rightarrow> sim_state
     \<Rightarrow> py_error + (trace_item list \<times> sim_state)" where
  "simulate_customer w cfg events week_keys c st =
     (if week_keys = [] then Inr ([], st)
      else
        (let (start_idx, g1) = rng_integers 0 (max 1 (int (length week_keys) - 24)) (rng st);
             (u, g2) = random_u g1;
             st0 = st\<lparr> rng := g2, weeks_active := 0, last_bet_week_idx := None,
                       has_churned := False,
                       promo_eligible := (u < dict_get promo_eligibility (segment c) 0.50),
                       last_promo_week_idx := None, promo_week_history := [],
                       negative_net_streak := 0, promo_effect_weeks_remaining := 0 \<rparr>
         in weeks_loop w cfg events week_keys c [nat start_idx ..< length week_keys] st0))"

text \<open>
  The loop over the rows of the customers frame. The log tags each item with the
  position of the customer's row.
\<close>

fun customers_loop ::
  "prng \<Rightarrow> churn_config \<Rightarrow> event list \<Rightarrow> (int \<times> int) list \<Rightarrow> nat \<Rightarrow> customer list \<Rightarrow> sim_state
     \<Rightarrow> py_error + ((nat \<times> trace_item) list \<times> sim_state)" where
  "customers_loop w cfg events week_keys row [] st = Inr ([], st)"
| "customers_loop w cfg events week_keys row (c # cs) st =
     bind_res (simulate_customer w cfg events week_keys c st)
       (\<lambda>(tr, st1).
          bind_res (customers_loop w cfg events week_keys (Suc row) cs st1)
            (\<lambda>(tr', st2). Inr (map (Pair row) tr @ tr', st2)))"

text \<open>
  The state at the first customer: both generators freshly seeded, the id counters at 1.
  The per-customer and per-week variables are assigned before they are read.
\<close>

definition initial_state :: "prng \<Rightarrow> int \<Rightarrow> sim_state" where
  "initial_state w seed =
     \<lparr> rng = (default_rng w seed, 0), pyrand = (random_seed w seed, 0),
       bet_id = 1, leg_id = 1, weeks_active = 0, last_bet_week_idx = None,
       has_churned = False, promo_eligible = False, last_promo_week_idx = None,
       promo_week_history = [], negative_net_streak = 0,
       promo_effect_weeks_remaining = 0, week_net_profit = 0, promo_given_this_week = False \<rparr>"

text \<open>
  The log of a whole run. \<open>churn_cfg or DEFAULT_CHURN_CONFIG\<close> replaces a missing
  configuration by the default.
\<close>

definition simulate_trace ::
  "prng \<Rightarrow> event list \<Rightarrow> customer list \<Rightarrow> int \<Rightarrow> churn_config option
     \<Rightarrow> py_error + ((nat \<times> trace_item) list \<times> sim_state)" where
  "simulate_trace w dim_event customers seed churn_cfg =
     (let cfg = (case churn_cfg of None \<Rightarrow> DEFAULT_CHURN_CONFIG | Some cfg' \<Rightarrow> cfg');
          events = load_events dim_event;
          week_keys = week_keys_of events
      in customers_loop w cfg events week_keys 0 customers (initial_state w seed))"

text \<open>The bets of a log, in the order of emission.\<close>

fun emitted_of :: "trace_item list \<Rightarrow> entry list" where
  "emitted_of [] = []"
| "emitted_of (Emitted e # tr) = e # emitted_of tr"
| "emitted_of (Churned k # tr) = emitted_of tr"

definition entries_of :: "(nat \<times> trace_item) list \<Rightarrow> entry list" where
  "entries_of tr = emitted_of (map snd tr)"

text \<open>
  \<open>simulate_ledger\<close>: the three frames, and the state in which the call leaves the
  \<open>random\<close> module. The state of the module at the call is the last argument;
  \<open>random.seed(seed)\<close> overwrites it.
\<close>

definition simulate_ledger ::
  "prng \<Rightarrow> event list \<Rightarrow> customer list \<Rightarrow> int \<Rightarrow> churn_config option \<Rightarrow> gen
     \<Rightarrow> py_error + ((bet_row list \<times> leg_row list \<times> cost_row list) \<times> gen)" where
  "simulate_ledger w dim_event customers seed churn_cfg py =
     bind_res (simulate_trace w dim_event customers seed churn_cfg)
       (\<lambda>(tr, st).
          Inr ((map e_bet (entries_of tr), concat (map e_legs (entries_of tr)),
                map e_cost (entries_of tr)), pyrand st))"

section \<open>The retention evaluator\<close>

text \<open>The calendar day of a bet (\<open>.dt.date\<close>).\<close>

definition bet_day :: "bet_row \<Rightarrow> int" where
  "bet_day b = \<lfloor>b_bet_datetime b\<rfloor>"

definition bets_by_customer :: "bet_row list \<Rightarrow> int \<Rightarrow> int list" where
  "bets_by_customer bets c_id = map bet_day (filter (\<lambda>b. b_customer_id b = c_id) bets)"

fun list_min :: "int list \<Rightarrow> int" where
  "list_min [] = 0"
| "list_min (x # xs) = fold min xs x"

text \<open>The date of the customer's first bet.\<close>

definition anchor_map :: "bet_row list \<Rightarrow> int \<Rightarrow> int" where
  "anchor_map bets c_id = list_min (bets_by_customer bets c_id)"

text \<open>
  The segment the left merge and \<open>dict(zip(...))\<close> give a customer id: that of the last
  row of the customers frame with the id, none when no row has it.
\<close>

definition segment_map :: "customer list \<Rightarrow> int \<Rightarrow> string option" where
  "segment_map customers c_id =
     (case filter (\<lambda>c. customer_id c = c_id) customers of
        [] \<Rightarrow> None
      | c # cs \<Rightarrow> Some (segment (last (c # cs))))"

definition segment_ids :: "bet_row list \<Rightarrow> customer list \<Rightarrow> string \<Rightarrow> int list" where
  "segment_ids bets customers seg =
     filter (\<lambda>c_id. segment_map customers c_id = Some seg)
       (sort (remdups (map b_customer_id bets)))"

definition active_in_window :: "bet_row list \<Rightarrow> int \<Rightarrow> int \<Rightarrow> int \<Rightarrow> nat" where
  "active_in_window bets c_id start_day end_day =
     (let anchor = anchor_map bets c_id in
      if list_ex (\<lambda>d. start_day < d - anchor \<and> d - anchor \<le> end_day) (bets_by_customer bets c_id)
      then 1 else 0)"

definition window_fraction :: "bet_row list \<Rightarrow> int list \<Rightarrow> int \<Rightarrow> int \<Rightarrow> real" where
  "window_fraction bets ids start_day end_day =
     real (sum_list (map (\<lambda>i. active_in_window bets i start_day end_day) ids)) / real (length ids)"

definition segment_names :: "string list" where
  "segment_names = [''sharp'', ''regular'', ''casual'', ''promo_hunter'']"

definition window_names :: "string list" where
  "window_names = [''still_active_7d'', ''still_active_30d'', ''still_active_60d'', ''still_active_90d'']"

type_synonym retention = "string \<rightharpoonup> (string \<rightharpoonup> real)"

definition compute_still_active_retention :: "bet_row list \<Rightarrow> customer list \<Rightarrow> retention" where
  "compute_still_active_retention bets customers =
     (if bets = [] then Map.empty
      else (\<lambda>seg.
        if seg \<in> set segment_names then
          (let ids = segment_ids bets customers seg in
           if ids = [] then None
           else Some [''still_active_7d'' \<mapsto> window_fraction bets ids 0 7,
                      ''still_active_30d'' \<mapsto> window_fraction bets ids 23 30,
                      ''still_active_60d'' \<mapsto> window_fraction bets ids 53 60,
                      ''still_active_90d'' \<mapsto> window_fraction bets ids 83 90])
        else None))"

section \<open>The calibration search\<close>

definition target :: "(string \<times> (string \<times> real) list) list" where
  "target =
     [(''sharp'', [(''still_active_7d'', 0.72), (''still_active_30d'', 0.58),
                   (''still_active_60d'', 0.42), (''still_active_90d'', 0.28)]),
      (''regular'', [(''still_active_7d'', 0.40), (''still_active_30d'', 0.20),
                     (''still_active_60d'', 0.08), (''still_active_90d'', 0.03)]),
      (''casual'', [(''still_active_7d'', 0.18), (''still_active_30d'', 0.06),
                    (''still_active_60d'', 0.01), (''still_active_90d'', 0.00)]),
      (''promo_hunter'', [(''still_active_7d'', 0.14), (''still_active_30d'', 0.03),
                          (''still_active_60d'', 0.00), (''still_active_90d'', 0.00)])]"

text \<open>\<open>itertools.product\<close> of the four value lists, the last one varying fastest.\<close>

definition grid :: "(real \<times> real \<times> real \<times> real) list" where
  "grid = [(base_scale, mid_scale, tail_scale, inactivity_mult') .
             base_scale \<leftarrow> [0.95, 1.05], mid_scale \<leftarrow> [0.9, 1.1],
             tail_scale \<leftarrow> [0.9, 1.1], inactivity_mult' \<leftarrow> [2.3, 2.7]]"

definition scale_dict :: "real \<Rightarrow> (string \<rightharpoonup> real) \<Rightarrow> (string \<rightharpoonup> real)" where
  "scale_dict s d = (\<lambda>k. map_option (\<lambda>v. v * s) (d k))"

text \<open>The candidate configuration of one grid cell: a copy of the base, rescaled.\<close>

definition candidate_cfg :: "churn_config \<Rightarrow> real \<times> real \<times> real \<times> real \<Rightarrow> churn_config" where
  "candidate_cfg base_cfg cell =
     (case cell of (base_scale, mid_scale, tail_scale, inactivity_mult') \<Rightarrow>
        base_cfg\<lparr> base_weekly_churn := scale_dict base_scale (base_weekly_churn base_cfg),
                  mid_churn_mult := scale_dict mid_scale (mid_churn_mult base_cfg),
                  tail_churn_mult := scale_dict tail_scale (tail_churn_mult base_cfg),
                  inactivity_mult := inactivity_mult' \<rparr>)"

definition retention_get :: "retention \<Rightarrow> string \<Rightarrow> string \<Rightarrow> real" where
  "retention_get ret seg k = dict_get (dict_get ret seg Map.empty) k 0.0"

text \<open>The sum over segments and windows of the squared deviation from the target.\<close>

definition score_of :: "retention \<Rightarrow> real" where
  "score_of ret =
     fold (\<lambda>(seg, targets) score.
             fold (\<lambda>(k, v) score'. score' + (retention_get ret seg k - v) ^ 2) targets score)
       target 0.0"

text \<open>
  The best candidate so far: its score (\<open>None\<close> is \<open>float("inf")\<close>), its configuration
  and its retention.
\<close>

type_synonym best = "real option \<times> churn_config \<times> retention"

definition improves :: "real \<Rightarrow> real option \<Rightarrow> bool" where
  "improves score best_score = (case best_score of None \<Rightarrow> True | Some b \<Rightarrow> score < b)"

fun calibrate_loop ::
  "prng \<Rightarrow> event list \<Rightarrow> customer list \<Rightarrow> int \<Rightarrow> churn_config
     \<Rightarrow> (real \<times> real \<times> real \<times> real) list \<Rightarrow> best \<Rightarrow> gen \<Rightarrow> py_error + (best \<times> gen)" where
  "calibrate_loop w dim_event sample seed base_cfg [] bst py = Inr (bst, py)"
| "calibrate_loop w dim_event sample seed base_cfg (cell # cells) bst py =
     (let cfg = candidate_cfg base_cfg cell in
      bind_res (simulate_ledger w dim_event sample seed (Some cfg) py)
        (\<lambda>((bets, legs, costs), py').
           let ret = compute_still_active_retention bets sample;
               score = score_of ret
           in calibrate_loop w dim_event sample seed base_cfg cells
                (if improves score (fst bst) then (Some score, cfg, ret) else bst) py'))"

text \<open>\<open>customers.sample(n=min(1000, len(customers)), random_state=seed)\<close>.\<close>

definition calibration_sample :: "prng \<Rightarrow> customer list \<Rightarrow> int \<Rightarrow> customer list" where
  "calibration_sample w customers seed =
     sample_rows (min 1000 (length customers)) customers (RandomState w seed, 0)"

text \<open>
  \<open>calibrate_churn_config\<close>: the best configuration, the achieved retention of the sample
  and the score, with the state in which the call leaves the \<open>random\<close> module.
\<close>

definition calibrate_churn_config ::
  "prng \<Rightarrow> event list \<Rightarrow> customer list \<Rightarrow> churn_config \<Rightarrow> int \<Rightarrow> gen
     \<Rightarrow> py_error + ((churn_config \<times> retention \<times> real option) \<times> gen)" where
  "calibrate_churn_config w dim_event customers base_cfg seed py =
     (let sample = calibration_sample w customers seed in
      bind_res
        (calibrate_loop w dim_event sample seed base_cfg grid (None, base_cfg, Map.empty) py)
        (\<lambda>((best_score, best_cfg, best_ret), py'). Inr ((best_cfg, best_ret, best_score), py')))"

section \<open>The population generator\<close>

definition seg_freq :: "string \<Rightarrow> real \<times> real" where
  "seg_freq seg =
     (if seg = ''casual'' then (0.12, 0.50) else if seg = ''regular'' then (0.40, 1.00)
      else if seg = ''sharp'' then (1.30, 2.80) else (0.10, 0.38))"

definition seg_stake :: "string \<Rightarrow> real \<times> real" where
  "seg_stake seg =
     (if seg = ''casual'' then (18, 40) else if seg = ''regular'' then (35, 95)
      else if seg = ''sharp'' then (80, 260) else (25, 70))"

definition generate_customer :: "int \<Rightarrow> gen \<Rightarrow> customer \<times> gen" where
  "generate_customer cid g =
     (let (seg, g1) = rng_choice [''casual'', ''regular'', ''sharp'', ''promo_hunter'']
                        [0.45, 0.30, 0.15, 0.10] g;
          (freq', g2) = rng_uniform (fst (seg_freq seg)) (snd (seg_freq seg)) g1;
          (avg_stake', g3) = rng_uniform (fst (seg_stake seg)) (snd (seg_stake seg)) g2;
          (prefs, promo_sens, g4) =
            (if seg = ''sharp''
             then (let (x, g') = rng_uniform 0.05 0.35 g3 in ([0.20, 0.45, 0.25, 0.10], x, g'))
             else if seg = ''promo_hunter''
             then (let (x, g') = rng_uniform 0.65 0.98 g3 in ([0.25, 0.35, 0.20, 0.20], x, g'))
             else if seg = ''regular''
             then (let (x, g') = rng_uniform 0.25 0.60 g3 in ([0.25, 0.40, 0.25, 0.10], x, g'))
             else (let (x, g') = rng_uniform 0.30 0.70 g3 in ([0.30, 0.35, 0.25, 0.10], x, g')));
          (n0, g5) = rng_normal 0 0.03 g4;
          (n1, g6) = rng_normal 0 0.03 g5;
          (n2, g7) = rng_normal 0 0.03 g6;
          (n3, g8) = rng_normal 0 0.03 g7;
          clipped = map2 (\<lambda>p n. max (p + n) 0.05) prefs [n0, n1, n2, n3];
          normed = map (\<lambda>p. p / sum_list clipped) clipped
      in (\<lparr> customer_id = cid, segment = seg, freq = freq', avg_stake = avg_stake',
            pref_moneyline = normed ! 0, pref_spread = normed ! 1, pref_total = normed ! 2,
            pref_parlay = normed ! 3, promo_sensitivity = promo_sens \<rparr>, g8))"

fun generate_loop :: "int list \<Rightarrow> gen \<Rightarrow> customer list" where
  "generate_loop [] g = []"
| "generate_loop (cid # cids) g =
     (let (c, g') = generate_customer cid g in c # generate_loop cids g')"

definition generate_customers :: "prng \<Rightarrow> int \<Rightarrow> int \<Rightarrow> customer list" where
  "generate_customers w n_customers' seed = generate_loop [1 .. n_customers'] (default_rng w seed, 0)"

section \<open>The Monte Carlo harness\<close>

record mc_args =
  runs :: int
  n_customers :: int
  customer_seed :: int
  ledger_seed :: int

record run_row =
  run_id :: int
  r_customer_seed :: int
  r_ledger_seed :: int
  r_handle :: real
  r_hold :: real
  r_net_margin :: real
  r_promo_rate :: real
  r_retention :: "(string \<times> real) list"

text \<open>
  The left merge of bets and costs on \<open>bet_id\<close>; a bet without a cost row has missing cost
  columns, which the sums skip.
\<close>

definition merge_costs :: "bet_row list \<Rightarrow> cost_row list \<Rightarrow> (bet_row \<times> cost_row option) list" where
  "merge_costs bets costs =
     concat (map (\<lambda>b. case filter (\<lambda>c. c_bet_id c = b_bet_id b) costs of
                         [] \<Rightarrow> [(b, None)]
                       | c # cs \<Rightarrow> map (\<lambda>c'. (b, Some c')) (c # cs)) bets)"

definition metrics_row ::
  "nat \<Rightarrow> int \<Rightarrow> int \<Rightarrow> bet_row list \<Rightarrow> cost_row list \<Rightarrow> customer list \<Rightarrow> run_row" where
  "metrics_row i customer_seed' ledger_seed' bets costs customers =
     (let handle = sum_list (map b_stake_amount bets);
          ggr = sum_list (map (\<lambda>b. b_stake_amount b - b_gross_payout b) bets);
          merged = merge_costs bets costs;
          net = sum_list (List.map_filter
                  (\<lambda>(b, co). case co of None \<Rightarrow> None
                     | Some c \<Rightarrow> Some (b_stake_amount b - b_gross_payout b - c_promo_cost c
                                         - c_payment_fee c - c_tax c)) merged);
          promo = sum_list (List.map_filter (\<lambda>(b, co). map_option c_promo_cost co) merged);
          promo_rate = (if handle \<noteq> 0 then promo / handle else 0.0);
          hold = (if handle \<noteq> 0 then ggr / handle else 0.0);
          margin = (if handle \<noteq> 0 then net / handle else 0.0);
          ret = compute_still_active_retention bets customers
      in \<lparr> run_id = int i + 1, r_customer_seed = customer_seed', r_ledger_seed = ledger_seed',
            r_handle = handle, r_hold = hold, r_net_margin = margin, r_promo_rate = promo_rate,
            r_retention = [(seg @ ''_'' @ k, retention_get ret seg k) .
                             seg \<leftarrow> segment_names, k \<leftarrow> window_names] \<rparr>)"

text \<open>The body of the loop \<open>for i in range(args.runs)\<close>: the row of the run, if any.\<close>

definition mc_run ::
  "prng \<Rightarrow> event list \<Rightarrow> churn_config \<Rightarrow> mc_args \<Rightarrow> nat \<Rightarrow> gen
     \<Rightarrow> py_error + (run_row option \<times> gen)" where
  "mc_run w dim_event churn_cfg args i py =
     (let customer_seed' = customer_seed args + int i;
          ledger_seed' = ledger_seed args + int i;
          customers = generate_customers w (n_customers args) customer_seed'
      in bind_res (simulate_ledger w dim_event customers ledger_seed' (Some churn_cfg) py)
           (\<lambda>((bets, legs, costs), py').
              if bets = [] \<or> costs = [] then Inr (None, py')
              else Inr (Some (metrics_row i customer_seed' ledger_seed' bets costs customers), py')))"

fun mc_loop ::
  "prng \<Rightarrow> event list \<Rightarrow> churn_config \<Rightarrow> mc_args \<Rightarrow> nat list \<Rightarrow> gen
     \<Rightarrow> py_error + (run_row list \<times> gen)" where
  "mc_loop w dim_event churn_cfg args [] py = Inr ([], py)"
| "mc_loop w dim_event churn_cfg args (i # is) py =
     bind_res (mc_run w dim_event churn_cfg args i py)
       (\<lambda>(row, py').
          bind_res (mc_loop w dim_event churn_cfg args is py')
            (\<lambda>(rows, py''). Inr ((case row of None \<Rightarrow> rows | Some r \<Rightarrow> r # rows), py'')))"

text \<open>The rows \<open>main\<close> collects in \<open>run_rows\<close>.\<close>

definition mc_run_rows ::
  "prng \<Rightarrow> event list \<Rightarrow> churn_config \<Rightarrow> mc_args \<Rightarrow> gen \<Rightarrow> py_error + (run_row list \<times> gen)" where
  "mc_run_rows w dim_event churn_cfg args py =
     mc_loop w dim_event churn_cfg args [0 ..< nat (runs args)] py"

section \<open>Notions used in the statements\<close>

text \<open>The legs of a bet in the legs frame: the rows with the bet's id.\<close>

definition legs_of :: "leg_row list \<Rightarrow> bet_row \<Rightarrow> leg_row list" where
  "legs_of legs b = filter (\<lambda>l. l_bet_id l = b_bet_id b) legs"

definition entry_id :: "entry \<Rightarrow> int" where
  "entry_id e = b_bet_id (e_bet e)"

text \<open>The bet ids of a stretch of the log are distinct and lie between two counter values.\<close>

definition ids_between :: "int \<Rightarrow> entry list \<Rightarrow> int \<Rightarrow> bool" where
  "ids_between lo es hi =
     (lo \<le> hi \<and> distinct (map entry_id es) \<and> list_all (\<lambda>e. lo \<le> entry_id e \<and> entry_id e < hi) es)"

text \<open>The week index of an item of the log.\<close>

definition item_week :: "trace_item \<Rightarrow> nat" where
  "item_week it = (case it of Churned k \<Rightarrow> k | Emitted e \<Rightarrow> e_wk_idx e)"

text \<open>The net profit of a bet, as the bet loop adds it to \<open>week_net_profit\<close>.\<close>

definition entry_net :: "entry \<Rightarrow> real" where
  "entry_net e =
     b_stake_amount (e_bet e) - b_gross_payout (e_bet e) - c_promo_cost (e_cost e)
       - c_payment_fee (e_cost e) - c_tax (e_cost e)"

text \<open>The last week with a bet lies at least two weeks back.\<close>

definition inactive_two_weeks :: "nat \<Rightarrow> sim_state \<Rightarrow> bool" where
  "inactive_two_weeks wk_idx st =
     (case last_bet_week_idx st of None \<Rightarrow> False | Some l \<Rightarrow> int wk_idx - int l \<ge> 2)"





section \<open>Example inputs\<close>


text \<open>
  A run on a calendar of one playoff week with a single event, for one customer: the
  customer the population generator draws from the tape below. The
  tape of the numpy generators always reads raw 0 and the normal variate 0; the tape of
  the \<open>random\<close> module always reads the largest raw value, so \<open>random.random()\<close> is just
  below 1 and \<open>random.choices\<close> picks the last option.
\<close>

definition zero_tape :: tape where
  "zero_tape = (\<lambda>n. (0, 0))"

definition high_tape :: tape where
  "high_tape = (\<lambda>n. (9007199254740991, 0))"

definition example_prng :: prng where
  "example_prng =
     \<lparr> default_rng = (\<lambda>seed. zero_tape), RandomState = (\<lambda>seed. zero_tape),
       random_seed = (\<lambda>seed. high_tape) \<rparr>"

definition final_game :: event where
  "final_game =
     \<lparr> event_id = 1, season = 2010, week = Some 22, game_date = 100, is_playoff = True,
       home_score = 31, away_score = 25, spread_line = Some (- 3), total_line = Some 45 \<rparr>"

definition example_customer :: customer where
  "example_customer =
     \<lparr> customer_id = 1, segment = ''casual'', freq = 0.12, avg_stake = 18,
       pref_moneyline = 0.30, pref_spread = 0.35, pref_total = 0.25, pref_parlay = 0.10,
       promo_sensitivity = 0.30 \<rparr>"

text \<open>
  The ledger of this run: one parlay bet of the customer's first week, with its single
  leg and its cost row, and the state in which the run ends.
\<close>

definition example_leg :: leg_row where
  "example_leg =
     \<lparr> l_bet_leg_id = 1, l_bet_id = 1, l_leg_no = 1, l_event_id = 1,
       l_market_type = Total, l_selection = Over, l_line_value = Some 45,
       l_american_odds = - 114, l_decimal_odds = 107 / 57, l_is_win = True,
       l_is_push = False, l_settled_result = Win \<rparr>"

definition example_bet :: bet_row where
  "example_bet =
     \<lparr> b_bet_id = 1, b_customer_id = 1, b_bet_datetime = 2399 / 24, b_bet_type = Parlay,
       b_stake_amount = 18, b_odds_decimal_avg = 107 / 57, b_gross_payout = 642 / 19,
       b_status = Win \<rparr>"

definition example_cost :: cost_row where
  "example_cost =
     \<lparr> c_cost_id = 1, c_bet_id = 1, c_promo_cost = 513 / 2000, c_payment_fee = 27 / 125,
       c_tax = 0 \<rparr>"

definition example_entry :: entry where
  "example_entry =
     \<lparr> e_wk_idx = 0, e_weeks_active = 0, e_bet = example_bet, e_legs = [example_leg],
       e_cost = example_cost \<rparr>"

definition example_state :: "nat \<Rightarrow> nat \<Rightarrow> sim_state" where
  "example_state n m =
     \<lparr> rng = (zero_tape, n), pyrand = (high_tape, m),
       bet_id = 1, leg_id = 1, weeks_active = 0, last_bet_week_idx = None,
       has_churned = False, promo_eligible = True, last_promo_week_idx = None,
       promo_week_history = [], negative_net_streak = 0,
       promo_effect_weeks_remaining = 0, week_net_profit = 0, promo_given_this_week = False \<rparr>"

definition example_final_state :: sim_state where
  "example_final_state =
     \<lparr> rng = (zero_tape, 14), pyrand = (high_tape, 2),
       bet_id = 2, leg_id = 2, weeks_active = 1, last_bet_week_idx = Some 0,
       has_churned = False, promo_eligible = True, last_promo_week_idx = Some 0,
       promo_week_history = [0], negative_net_streak = 1,
       promo_effect_weeks_remaining = 4, week_net_profit = - (123591 / 7600),
       promo_given_this_week = True \<rparr>"

text \<open>
  A calendar of two weeks: the final game and the first game of the next season. On the
  zero tape the customer bets in the first week and churns in the second.
\<close>

definition opening_game :: event where
  "opening_game =
     \<lparr> event_id = 2, season = 2011, week = Some 1, game_date = 300, is_playoff = False,
       home_score = 17, away_score = 20, spread_line = Some 2.5, total_line = None \<rparr>"

definition churned_final_state :: sim_state where
  "churned_final_state = example_final_state\<lparr> rng := (zero_tape, 15), has_churned := True \<rparr>"

text \<open>
  The second week of the same customer under a generator that first reads the largest
  raw value (the churn draw fails) and then zeros (the Poisson draw gives no bet).
\<close>

definition calm_tape :: tape where
  "calm_tape = (\<lambda>n. if n = 0 then (9007199254740991, 0) else (0, 0))"

definition quiet_week_state :: sim_state where
  "quiet_week_state = example_final_state\<lparr> rng := (calm_tape, 2), weeks_active := 2 \<rparr>"

section \<open>Properties of the primitives\<close>

lemma clip_bounds: "lo \<le> hi \<Longrightarrow> lo \<le> clip x lo hi \<and> clip x lo hi \<le> hi"
  by (auto simp: clip_def min_def max_def)



lemma random_u_range: "0 \<le> fst (random_u g) \<and> fst (random_u g) < 1"
  by (simp add: random_u_def split_beta)

section \<open>Properties of the ledger simulator\<close>

subsection \<open>What holds of every bet step holds of every logged bet\<close>

lemma bind_res_Inr:
  "bind_res m f = Inr y \<longleftrightarrow> (\<exists>x. m = Inr x \<and> f x = Inr y)"
  by (cases m) (simp_all add: bind_res_def)

lemma emitted_of_append [simp]: "emitted_of (xs @ ys) = emitted_of xs @ emitted_of ys"
  by (induction xs rule: emitted_of.induct) simp_all

lemma emitted_of_map_Emitted [simp]: "emitted_of (map Emitted es) = es"
  by (induction es) simp_all

lemma bets_loop_entries:
  assumes H: "\<And>st e st'. simulate_bet w c wk we st = Inr (e, st') \<Longrightarrow> P e"
  shows "bets_loop w c wk we n st = Inr (es, st') \<Longrightarrow> e \<in> set es \<Longrightarrow> P e"
proof (induction n arbitrary: st es)
  case 0
  then show ?case by simp
next
  case (Suc n)
  from Suc.prems(1) obtain e0 st1 es1 where
    b: "simulate_bet w c wk we st = Inr (e0, st1)" and
    r: "bets_loop w c wk we n st1 = Inr (es1, st')" and
    es: "es = e0 # es1"
    by (auto simp: bind_res_Inr)
  from Suc.prems(2) es have "e = e0 \<or> e \<in> set es1" by simp
  then show ?case
  proof
    assume "e = e0"
    with H [OF b] show ?thesis by simp
  next
    assume "e \<in> set es1"
    with Suc.IH [OF r] show ?thesis .
  qed
qed

lemma week_step_entries:
  assumes H: "\<And>st e st'. simulate_bet w c wk (events_by_week events (week_keys ! wk)) st = Inr (e, st') \<Longrightarrow> P e"
    and ws: "week_step w cfg events week_keys c wk st = Inr (tr, st')"
    and mem: "e \<in> set (emitted_of tr)"
  shows "P e"
proof -
  obtain churns st1 where cc: "churn_check cfg c wk st = (churns, st1)"
    by (cases "churn_check cfg c wk st")
  obtain n g2 where dn: "draw_n_bets c (snd (week_keys ! wk)) st1 = (n, g2)"
    by (cases "draw_n_bets c (snd (week_keys ! wk)) st1")
  show ?thesis
  proof (cases "churns \<or> events_by_week events (week_keys ! wk) = [] \<or> n \<le> 0")
    case True
    with ws cc dn have "emitted_of tr = []"
      by (auto simp: week_step_def Let_def split: if_splits)
    with mem show ?thesis by simp
  next
    case False
    with ws cc dn obtain es st3 where
      bl: "bets_loop w c wk (events_by_week events (week_keys ! wk)) (nat n)
             (st1\<lparr>rng := g2, week_net_profit := 0.0, promo_given_this_week := False\<rparr>) = Inr (es, st3)"
      and tr: "tr = map Emitted es"
      by (auto simp: week_step_def Let_def bind_res_Inr split: if_splits)
    from mem tr have "e \<in> set es" by simp
    show ?thesis
      by (rule bets_loop_entries [where P = P, OF _ bl \<open>e \<in> set es\<close>]) (rule H)
  qed
qed

lemma weeks_loop_entries:
  assumes H: "\<And>wk st e st'. wk \<in> set wks \<Longrightarrow>
      simulate_bet w c wk (events_by_week events (week_keys ! wk)) st = Inr (e, st') \<Longrightarrow> P e"
  shows "weeks_loop w cfg events week_keys c wks st = Inr (tr, st') \<Longrightarrow> e \<in> set (emitted_of tr) \<Longrightarrow> P e"
  using H
proof (induction wks arbitrary: st tr)
  case Nil
  then show ?case by simp
next
  case (Cons wk wks)
  show ?case
  proof (cases "has_churned st")
    case True
    with Cons.prems show ?thesis by simp
  next
    case False
    with Cons.prems(1) obtain tr1 st1 tr2 where
      ws: "week_step w cfg events week_keys c wk st = Inr (tr1, st1)" and
      wl: "weeks_loop w cfg events week_keys c wks st1 = Inr (tr2, st')" and
      tr: "tr = tr1 @ tr2"
      by (auto simp: bind_res_Inr)
    from Cons.prems(2) tr have "e \<in> set (emitted_of tr1) \<or> e \<in> set (emitted_of tr2)" by simp
    then show ?thesis
    proof
      assume m1: "e \<in> set (emitted_of tr1)"
      show ?thesis
        by (rule week_step_entries [where P = P, OF _ ws m1]) (rule Cons.prems(3), simp_all)
    next
      assume m2: "e \<in> set (emitted_of tr2)"
      show ?thesis
        by (rule Cons.IH [OF wl m2]) (rule Cons.prems(3), simp_all)
    qed
  qed
qed

lemma simulate_customer_entries:
  assumes H: "\<And>wk st e st'. wk < length week_keys \<Longrightarrow>
      simulate_bet w c wk (events_by_week events (week_keys ! wk)) st = Inr (e, st') \<Longrightarrow> P e"
    and sc: "simulate_customer w cfg events week_keys c st = Inr (tr, st')"
    and mem: "e \<in> set (emitted_of tr)"
  shows "P e"
proof (cases "week_keys = []")
  case True
  with sc mem show ?thesis by (simp add: simulate_customer_def)
next
  case False
  with sc mem show ?thesis
    apply (clarsimp simp: simulate_customer_def Let_def split: prod.splits)
    apply (erule (1) weeks_loop_entries [where P = P, rotated])
    apply (rule H)
     apply simp_all
    done
qed

lemma customers_loop_entries:
  assumes H: "\<And>c wk st e st'. c \<in> set cs \<Longrightarrow> wk < length week_keys \<Longrightarrow>
      simulate_bet w c wk (events_by_week events (week_keys ! wk)) st = Inr (e, st') \<Longrightarrow> P e"
  shows "customers_loop w cfg events week_keys row cs st = Inr (tr, st') \<Longrightarrow> e \<in> set (entries_of tr) \<Longrightarrow> P e"
  using H
proof (induction cs arbitrary: st tr row)
  case Nil
  then show ?case by (simp add: entries_of_def)
next
  case (Cons c cs)
  from Cons.prems(1) obtain tr1 st1 tr2 where
    sc: "simulate_customer w cfg events week_keys c st = Inr (tr1, st1)" and
    cl: "customers_loop w cfg events week_keys (Suc row) cs st1 = Inr (tr2, st')" and
    tr: "tr = map (Pair row) tr1 @ tr2"
    by (auto simp: bind_res_Inr)
  from Cons.prems(2) tr have "e \<in> set (emitted_of tr1) \<or> e \<in> set (entries_of tr2)"
    by (auto simp: entries_of_def comp_def)
  then show ?case
  proof
    assume m1: "e \<in> set (emitted_of tr1)"
    show ?thesis
      by (rule simulate_customer_entries [where P = P, OF _ sc m1]) (rule Cons.prems(3), simp_all)
  next
    assume m2: "e \<in> set (entries_of tr2)"
    show ?thesis
      by (rule Cons.IH [OF cl m2]) (rule Cons.prems(3), simp_all)
  qed
qed

subsection \<open>The parts of a bet step\<close>

lemma simulate_bet_Inr:
  "\<forall>e st'. simulate_bet w c wk we st = Inr (e, st') \<longrightarrow> (\<exists>g1 g3 g4 p1 lid g5 p2 st1.
    draw_stake c (rng st) = Inr (b_stake_amount (e_bet e), g1) \<and>
    simulate_legs (b_bet_type (e_bet e))
      (fst (pick_leg_events w (b_bet_type (e_bet e)) we
              (event_id (we ! nat (fst (rng_integers 0 (int (length we)) g1)))) g3))
      (bet_id st) (leg_id st) 1 g4 p1 = Inr (e_legs e, lid, g5, p2) \<and>
    settle_bet (b_bet_type (e_bet e)) (b_stake_amount (e_bet e))
      (map (\<lambda>l. (l_settled_result l, l_decimal_odds l)) (e_legs e))
      = Inr (b_gross_payout (e_bet e), b_status (e_bet e), b_odds_decimal_avg (e_bet e)) \<and>
    promo_decision c wk (b_stake_amount (e_bet e)) (st\<lparr> rng := g5, pyrand := p2, leg_id := lid \<rparr>)
      = (c_promo_cost (e_cost e), st1) \<and>
    e_wk_idx e = wk \<and> e_weeks_active e = weeks_active st \<and>
    b_bet_id (e_bet e) = bet_id st \<and> c_bet_id (e_cost e) = bet_id st \<and>
    c_cost_id (e_cost e) = bet_id st \<and> b_customer_id (e_bet e) = customer_id c \<and>
    c_payment_fee (e_cost e) = b_stake_amount (e_bet e) * 0.012 \<and>
    c_tax (e_cost e) = max 0.0 (b_stake_amount (e_bet e) - b_gross_payout (e_bet e)) * 0.03 \<and>
    st' = st1\<lparr> week_net_profit := week_net_profit st1
                    + (b_stake_amount (e_bet e) - b_gross_payout (e_bet e) - c_promo_cost (e_cost e)
                       - c_payment_fee (e_cost e) - c_tax (e_cost e)),
                 bet_id := bet_id st1 + 1, last_bet_week_idx := Some wk \<rparr>)"
  apply (intro allI impI)
  apply (clarsimp simp: simulate_bet_def bind_res_Inr Let_def split_beta simp del: split_paired_Ex)
  apply (intro exI conjI)
   apply assumption
  apply (rule prod.collapse [symmetric])
  apply (rule refl)
  done

subsection \<open>Stake, promotion, legs and settlement of one bet\<close>

lemma draw_stake_range:
  "draw_stake c g = Inr (s, g') \<Longrightarrow> 5 \<le> s \<and> s \<le> 2000"
  by (auto simp: draw_stake_def Let_def split_beta clip_def split: if_splits)

lemma promo_decision_cap:
  "fst (promo_decision c wk stake st) \<le> stake * promo_cap (weeks_active st)"
  by (simp add: promo_decision_def Let_def split_beta min_le_iff_disj)

lemma promo_decision_keeps:
  "bet_id (snd (promo_decision c wk stake st)) = bet_id st"
  "weeks_active (snd (promo_decision c wk stake st)) = weeks_active st"
  "has_churned (snd (promo_decision c wk stake st)) = has_churned st"
  "negative_net_streak (snd (promo_decision c wk stake st)) = negative_net_streak st"
  by (simp_all add: promo_decision_def Let_def split_beta)

lemma simulate_leg_bet_id:
  "simulate_leg bt ev bid lid no g p = Inr (row, g', p') \<Longrightarrow> l_bet_id row = bid"
  by (auto simp: simulate_leg_def bind_res_Inr Let_def split_beta)

lemma simulate_legs_rows:
  "simulate_legs bt evs bid lid no g p = Inr (rows, lid', g', p') \<Longrightarrow>
     length rows = length evs \<and> (\<forall>l \<in> set rows. l_bet_id l = bid)"
proof (induction evs arbitrary: lid no g p rows)
  case Nil
  then show ?case by simp
next
  case (Cons ev evs)
  from Cons.prems obtain row g1 p1 rows1 where
    l: "simulate_leg bt ev bid lid no g p = Inr (row, g1, p1)" and
    r: "simulate_legs bt evs bid (lid + 1) (Suc no) g1 p1 = Inr (rows1, lid', g', p')" and
    rows: "rows = row # rows1"
    by (auto simp: bind_res_Inr)
  from Cons.IH [OF r] simulate_leg_bet_id [OF l] rows show ?case by simp
qed





lemma parlay_mult_prod:
  "fold (\<lambda>(r, dec) mult. mult * (if r = Win then dec else 1)) lr a
     = a * prod_list (map (\<lambda>(r, dec). if r = Win then dec else 1) lr)"
  by (induction lr arbitrary: a) (auto simp: split_beta mult.assoc)

lemma settle_bet_parlay:
  assumes "settle_bet Parlay stake lr = Inr (payout, status, avg)"
  shows "payout = (if list_ex (\<lambda>(r, dec). r = Lose) lr then 0
                   else stake * prod_list (map (\<lambda>(r, dec). if r = Win then dec else 1) lr))"
  using assms by (auto simp: settle_bet_def Let_def parlay_mult_def parlay_mult_prod split: if_splits)

subsection \<open>Bet ids are unique in a run\<close>

lemma ids_between_Nil: "lo \<le> hi \<Longrightarrow> ids_between lo [] hi"
  by (simp add: ids_between_def)

lemma ids_between_append:
  "ids_between a xs b \<Longrightarrow> ids_between b ys c \<Longrightarrow> ids_between a (xs @ ys) c"
  by (fastforce simp: ids_between_def list_all_iff)

lemma ids_between_Cons:
  "entry_id e = a \<Longrightarrow> ids_between (a + 1) es c \<Longrightarrow> ids_between a (e # es) c"
  by (fastforce simp: ids_between_def list_all_iff)

lemma simulate_bet_ids:
  assumes "simulate_bet w c wk we st = Inr (e, st')"
  shows "entry_id e = bet_id st \<and> bet_id st' = bet_id st + 1"
proof -
  from simulate_bet_Inr [rule_format, OF assms] obtain st1 stake st0 promo where
    "promo_decision c wk stake st0 = (promo, st1)" and "bet_id st0 = bet_id st"
    and "b_bet_id (e_bet e) = bet_id st"
    and "bet_id st' = bet_id st1 + 1"
    by auto
  with promo_decision_keeps(1) [of c wk stake st0] show ?thesis
    by (simp add: entry_id_def)
qed

lemma bets_loop_ids:
  "bets_loop w c wk we n st = Inr (es, st') \<Longrightarrow> ids_between (bet_id st) es (bet_id st')"
proof (induction n arbitrary: st es)
  case 0
  then show ?case by (simp add: ids_between_Nil)
next
  case (Suc n)
  from Suc.prems obtain e0 st1 es1 where
    b: "simulate_bet w c wk we st = Inr (e0, st1)" and
    r: "bets_loop w c wk we n st1 = Inr (es1, st')" and
    es: "es = e0 # es1"
    by (auto simp: bind_res_Inr)
  from simulate_bet_ids [OF b] Suc.IH [OF r] es show ?case
    by (simp add: ids_between_Cons)
qed

lemma churn_check_bet_id: "bet_id (snd (churn_check cfg c wk st)) = bet_id st"
  by (simp add: churn_check_def split_beta)

lemma week_step_ids:
  assumes "week_step w cfg events week_keys c wk st = Inr (tr, st')"
  shows "ids_between (bet_id st) (emitted_of tr) (bet_id st')"
proof -
  obtain churns st1 where cc: "churn_check cfg c wk st = (churns, st1)"
    by (cases "churn_check cfg c wk st")
  with churn_check_bet_id [of cfg c wk st] have b1: "bet_id st1 = bet_id st" by simp
  obtain n g2 where dn: "draw_n_bets c (snd (week_keys ! wk)) st1 = (n, g2)"
    by (cases "draw_n_bets c (snd (week_keys ! wk)) st1")
  show ?thesis
  proof (cases "churns \<or> events_by_week events (week_keys ! wk) = [] \<or> n \<le> 0")
    case True
    with assms cc dn b1 have "emitted_of tr = [] \<and> bet_id st' = bet_id st"
      by (auto simp: week_step_def Let_def week_no_bets_def split: if_splits)
    then show ?thesis by (simp add: ids_between_Nil)
  next
    case False
    with assms cc dn obtain es st3 where
      bl: "bets_loop w c wk (events_by_week events (week_keys ! wk)) (nat n)
             (st1\<lparr>rng := g2, week_net_profit := 0.0, promo_given_this_week := False\<rparr>) = Inr (es, st3)"
      and tr: "tr = map Emitted es" and st': "st' = week_end st3"
      by (auto simp: week_step_def Let_def bind_res_Inr split: if_splits)
    from bets_loop_ids [OF bl] b1 tr st' show ?thesis
      by (simp add: week_end_def)
  qed
qed

lemma weeks_loop_ids:
  "weeks_loop w cfg events week_keys c wks st = Inr (tr, st') \<Longrightarrow>
     ids_between (bet_id st) (emitted_of tr) (bet_id st')"
proof (induction wks arbitrary: st tr)
  case Nil
  then show ?case by (simp add: ids_between_Nil)
next
  case (Cons wk wks)
  show ?case
  proof (cases "has_churned st")
    case True
    with Cons.prems show ?thesis by (simp add: ids_between_Nil)
  next
    case False
    with Cons.prems obtain tr1 st1 tr2 where
      ws: "week_step w cfg events week_keys c wk st = Inr (tr1, st1)" and
      wl: "weeks_loop w cfg events week_keys c wks st1 = Inr (tr2, st')" and
      tr: "tr = tr1 @ tr2"
      by (auto simp: bind_res_Inr)
    from week_step_ids [OF ws] Cons.IH [OF wl] tr show ?thesis
      by (simp add: ids_between_append)
  qed
qed

lemma simulate_customer_ids:
  assumes "simulate_customer w cfg events week_keys c st = Inr (tr, st')"
  shows "ids_between (bet_id st) (emitted_of tr) (bet_id st')"
proof (cases "week_keys = []")
  case True
  with assms show ?thesis by (simp add: simulate_customer_def ids_between_Nil)
next
  case False
  with assms show ?thesis
    by (auto simp: simulate_customer_def Let_def split_beta dest!: weeks_loop_ids)
qed

lemma customers_loop_ids:
  "customers_loop w cfg events week_keys row cs st = Inr (tr, st') \<Longrightarrow>
     ids_between (bet_id st) (entries_of tr) (bet_id st')"
proof (induction cs arbitrary: st tr row)
  case Nil
  then show ?case by (simp add: entries_of_def ids_between_Nil)
next
  case (Cons c cs)
  from Cons.prems obtain tr1 st1 tr2 where
    sc: "simulate_customer w cfg events week_keys c st = Inr (tr1, st1)" and
    cl: "customers_loop w cfg events week_keys (Suc row) cs st1 = Inr (tr2, st')" and
    tr: "tr = map (Pair row) tr1 @ tr2"
    by (auto simp: bind_res_Inr)
  from tr have "entries_of tr = emitted_of tr1 @ entries_of tr2"
    by (simp add: entries_of_def comp_def)
  with simulate_customer_ids [OF sc] Cons.IH [OF cl] show ?case
    by (simp add: ids_between_append)
qed

lemma legs_of_entries:
  assumes "distinct (map entry_id es)"
    and "\<forall>e \<in> set es. \<forall>l \<in> set (e_legs e). l_bet_id l = entry_id e"
    and "e \<in> set es"
  shows "legs_of (concat (map e_legs es)) (e_bet e) = e_legs e"
  using assms
proof (induction es)
  case Nil
  then show ?case by simp
next
  case (Cons x xs)
  have own: "\<And>y. \<forall>l \<in> set (e_legs y). l_bet_id l = entry_id y \<Longrightarrow>
      filter (\<lambda>l. l_bet_id l = entry_id y) (e_legs y) = e_legs y"
    by (simp add: filter_id_conv)
  have other: "\<And>y z. \<forall>l \<in> set (e_legs y). l_bet_id l = entry_id y \<Longrightarrow> entry_id y \<noteq> entry_id z \<Longrightarrow>
      filter (\<lambda>l. l_bet_id l = entry_id z) (e_legs y) = []"
    by (auto simp: filter_empty_conv)
  have rest_none: "\<And>z. \<forall>y \<in> set xs. entry_id y \<noteq> entry_id z \<Longrightarrow>
      filter (\<lambda>l. l_bet_id l = entry_id z) (concat (map e_legs xs)) = []"
    using Cons.prems(2) by (auto simp: filter_empty_conv)
  show ?case
  proof (cases "e = x")
    case True
    from Cons.prems(1) have "\<forall>y \<in> set xs. entry_id y \<noteq> entry_id x" by (auto simp: image_iff)
    from rest_none [OF this] own [of x] Cons.prems(2) True show ?thesis
      by (simp add: legs_of_def entry_id_def)
  next
    case False
    with Cons.prems have mem: "e \<in> set xs" by simp
    with Cons.prems(1) have "entry_id x \<noteq> entry_id e" by (auto simp: image_iff)
    from other [OF _ this] Cons.prems(2) have "filter (\<lambda>l. l_bet_id l = entry_id e) (e_legs x) = []"
      by simp
    moreover from Cons.IH [OF _ _ mem] Cons.prems have "legs_of (concat (map e_legs xs)) (e_bet e) = e_legs e"
      by simp
    ultimately show ?thesis by (simp add: legs_of_def entry_id_def)
  qed
qed

subsection \<open>From the log to the three frames\<close>

lemma simulate_trace_entries:
  assumes H: "\<And>c wk st e st'. wk < length (week_keys_of (load_events dim_event)) \<Longrightarrow>
      simulate_bet w c wk
        (events_by_week (load_events dim_event) (week_keys_of (load_events dim_event) ! wk)) st
        = Inr (e, st') \<Longrightarrow> P e"
    and run: "simulate_trace w dim_event customers seed churn_cfg = Inr (tr, st)"
    and mem: "e \<in> set (entries_of tr)"
  shows "P e"
proof -
  from run have cl: "customers_loop w
      (case churn_cfg of None \<Rightarrow> DEFAULT_CHURN_CONFIG | Some cfg' \<Rightarrow> cfg')
      (load_events dim_event) (week_keys_of (load_events dim_event)) 0 customers
      (initial_state w seed) = Inr (tr, st)"
    by (simp add: simulate_trace_def Let_def)
  show ?thesis
    by (rule customers_loop_entries [where P = P, OF _ cl mem]) (rule H, assumption+)
qed

lemma simulate_trace_ids:
  assumes "simulate_trace w dim_event customers seed churn_cfg = Inr (tr, st)"
  shows "distinct (map entry_id (entries_of tr))"
  using customers_loop_ids [OF assms [unfolded simulate_trace_def Let_def]]
  by (simp add: ids_between_def)

lemma simulate_ledger_Inr:
  assumes "simulate_ledger w dim_event customers seed churn_cfg py = Inr ((bets, legs, costs), py')"
  shows "\<exists>tr st. simulate_trace w dim_event customers seed churn_cfg = Inr (tr, st)
           \<and> bets = map e_bet (entries_of tr)
           \<and> legs = concat (map e_legs (entries_of tr))
           \<and> costs = map e_cost (entries_of tr) \<and> py' = pyrand st"
  using assms by (auto simp: simulate_ledger_def bind_res_Inr)

lemma simulate_bet_legs_id:
  assumes "simulate_bet w c wk we st = Inr (e, st')"
  shows "\<forall>l \<in> set (e_legs e). l_bet_id l = entry_id e"
proof -
  from simulate_bet_Inr [rule_format, OF assms] obtain bt evs lid0 no g p lid g5 p2 where
    "simulate_legs bt evs (bet_id st) lid0 no g p = Inr (e_legs e, lid, g5, p2)"
    and "b_bet_id (e_bet e) = bet_id st"
    by auto
  with simulate_legs_rows show ?thesis
    by (auto simp: entry_id_def)
qed

lemma ledger_bet_legs:
  assumes run: "simulate_ledger w dim_event customers seed churn_cfg py = Inr ((bets, legs, costs), py')"
    and b: "b \<in> set bets"
  shows "\<exists>tr st e. simulate_trace w dim_event customers seed churn_cfg = Inr (tr, st)
           \<and> e \<in> set (entries_of tr) \<and> b = e_bet e \<and> legs_of legs b = e_legs e"
proof -
  from simulate_ledger_Inr [OF run] obtain tr st where
    tr: "simulate_trace w dim_event customers seed churn_cfg = Inr (tr, st)" and
    bets: "bets = map e_bet (entries_of tr)" and
    legs: "legs = concat (map e_legs (entries_of tr))"
    by auto
  from b bets obtain e where e: "e \<in> set (entries_of tr)" and be: "b = e_bet e" by auto
  have ids: "\<forall>e \<in> set (entries_of tr). \<forall>l \<in> set (e_legs e). l_bet_id l = entry_id e"
  proof
    fix e' assume m: "e' \<in> set (entries_of tr)"
    show "\<forall>l \<in> set (e_legs e'). l_bet_id l = entry_id e'"
      by (rule simulate_trace_entries [where P = "\<lambda>e. \<forall>l \<in> set (e_legs e). l_bet_id l = entry_id e",
            OF _ tr m]) (rule simulate_bet_legs_id)
  qed
  from legs_of_entries [OF simulate_trace_ids [OF tr] ids e] legs be
  have "legs_of legs b = e_legs e" by simp
  with tr e be show ?thesis by blast
qed



subsection \<open>What one bet step guarantees\<close>

lemma simulate_bet_stake:
  assumes "simulate_bet w c wk we st = Inr (e, st')"
  shows "5 \<le> b_stake_amount (e_bet e) \<and> b_stake_amount (e_bet e) \<le> 2000"
proof -
  from simulate_bet_Inr [rule_format, OF assms] obtain g1 where
    "draw_stake c (rng st) = Inr (b_stake_amount (e_bet e), g1)" by auto
  then show ?thesis by (rule draw_stake_range)
qed

lemma simulate_bet_promo:
  assumes "simulate_bet w c wk we st = Inr (e, st')"
  shows "c_promo_cost (e_cost e) \<le> b_stake_amount (e_bet e) * promo_cap (e_weeks_active e)
         \<and> c_bet_id (e_cost e) = b_bet_id (e_bet e)"
proof -
  from simulate_bet_Inr [rule_format, OF assms] obtain lid g5 p2 st1 where
    pd: "promo_decision c wk (b_stake_amount (e_bet e)) (st\<lparr> rng := g5, pyrand := p2, leg_id := lid \<rparr>)
      = (c_promo_cost (e_cost e), st1)" and
    wa: "e_weeks_active e = weeks_active st" and
    ids: "b_bet_id (e_bet e) = bet_id st" "c_bet_id (e_cost e) = bet_id st"
    by auto
  from promo_decision_cap [of c wk "b_stake_amount (e_bet e)" "st\<lparr> rng := g5, pyrand := p2, leg_id := lid \<rparr>"]
    pd wa ids show ?thesis by simp
qed

lemma simulate_bet_parlay:
  assumes "simulate_bet w c wk we st = Inr (e, st')" and "b_bet_type (e_bet e) = Parlay"
  shows "b_gross_payout (e_bet e) =
    (if list_ex (\<lambda>l. l_settled_result l = Lose) (e_legs e) then 0
     else b_stake_amount (e_bet e)
            * prod_list (map (\<lambda>l. if l_settled_result l = Win then l_decimal_odds l else 1) (e_legs e)))"
proof -
  from simulate_bet_Inr [rule_format, OF assms(1)] assms(2) have
    "settle_bet Parlay (b_stake_amount (e_bet e))
       (map (\<lambda>l. (l_settled_result l, l_decimal_odds l)) (e_legs e))
      = Inr (b_gross_payout (e_bet e), b_status (e_bet e), b_odds_decimal_avg (e_bet e))"
    by auto
  from settle_bet_parlay [OF this] show ?thesis
    by (simp add: list_ex_iff comp_def)
qed


subsection \<open>Churn ends the log of a customer\<close>

lemma simulate_bet_week:
  assumes "simulate_bet w c wk we st = Inr (e, st')"
  shows "e_wk_idx e = wk"
  using simulate_bet_Inr [rule_format, OF assms] by auto

lemma week_step_items:
  assumes ws: "week_step w cfg events week_keys c wk st = Inr (tr, st')"
  shows "(\<forall>it \<in> set tr. item_week it = wk)
       \<and> (\<forall>k. Churned k \<in> set tr \<longrightarrow> tr = [Churned wk] \<and> has_churned st')"
proof -
  obtain churns st1 where cc: "churn_check cfg c wk st = (churns, st1)"
    by (cases "churn_check cfg c wk st")
  obtain n g2 where dn: "draw_n_bets c (snd (week_keys ! wk)) st1 = (n, g2)"
    by (cases "draw_n_bets c (snd (week_keys ! wk)) st1")
  show ?thesis
  proof (cases churns)
    case True
    with ws cc show ?thesis by (auto simp: week_step_def item_week_def)
  next
    case nochurn: False
    show ?thesis
    proof (cases "events_by_week events (week_keys ! wk) = [] \<or> n \<le> 0")
      case True
      with ws cc dn nochurn have "tr = []"
        by (auto simp: week_step_def Let_def split: if_splits)
      then show ?thesis by simp
    next
      case False
      with ws cc dn nochurn obtain es st3 where
        bl: "bets_loop w c wk (events_by_week events (week_keys ! wk)) (nat n)
               (st1\<lparr>rng := g2, week_net_profit := 0.0, promo_given_this_week := False\<rparr>) = Inr (es, st3)"
        and tr: "tr = map Emitted es"
        by (auto simp: week_step_def Let_def bind_res_Inr split: if_splits)
      have "\<And>e. e \<in> set es \<Longrightarrow> e_wk_idx e = wk"
        by (rule bets_loop_entries [where P = "\<lambda>e. e_wk_idx e = wk", OF _ bl])
           (rule simulate_bet_week)
      with tr show ?thesis by (auto simp: item_week_def)
    qed
  qed
qed

lemma weeks_loop_churned:
  "has_churned st \<Longrightarrow> weeks_loop w cfg events week_keys c wks st = Inr ([], st)"
  by (cases wks) simp_all

lemma weeks_loop_items:
  assumes "sorted_wrt (<) wks"
    and "weeks_loop w cfg events week_keys c wks st = Inr (tr, st')"
  shows "(\<forall>it \<in> set tr. item_week it \<in> set wks)
       \<and> (\<forall>k e. Churned k \<in> set tr \<longrightarrow> Emitted e \<in> set tr \<longrightarrow> e_wk_idx e < k)"
  using assms
proof (induction wks arbitrary: st tr)
  case Nil
  then show ?case by simp
next
  case (Cons wk wks)
  show ?case
  proof (cases "has_churned st")
    case True
    with Cons.prems show ?thesis by simp
  next
    case False
    with Cons.prems(2) obtain tr1 st1 tr2 where
      ws: "week_step w cfg events week_keys c wk st = Inr (tr1, st1)" and
      wl: "weeks_loop w cfg events week_keys c wks st1 = Inr (tr2, st')" and
      tr: "tr = tr1 @ tr2"
      by (auto simp: bind_res_Inr)
    from Cons.prems(1) have sorted: "sorted_wrt (<) wks" and less: "\<forall>x \<in> set wks. wk < x"
      by simp_all
    note step = week_step_items [OF ws]
    note rest = Cons.IH [OF sorted wl]
    have weeks: "\<forall>it \<in> set tr. item_week it \<in> set (wk # wks)"
      using step rest tr by auto
    have order: "e_wk_idx e < k" if ck: "Churned k \<in> set tr" and em: "Emitted e \<in> set tr" for k e
    proof (cases "Churned k \<in> set tr1")
      case True
      with step have tr1: "tr1 = [Churned wk]" and "has_churned st1" by auto
      with wl weeks_loop_churned [of st1 w cfg events week_keys c wks] have "tr2 = []" by simp
      with tr tr1 em show ?thesis by simp
    next
      case False
      with ck tr have ck2: "Churned k \<in> set tr2" by simp
      with rest have "item_week (Churned k) \<in> set wks" by blast
      then have "k \<in> set wks" by (simp add: item_week_def)
      with less have wk_k: "wk < k" by simp
      from em tr have "Emitted e \<in> set tr1 \<or> Emitted e \<in> set tr2" by simp
      then show ?thesis
      proof
        assume "Emitted e \<in> set tr1"
        with step have "item_week (Emitted e) = wk" by blast
        with wk_k show ?thesis by (simp add: item_week_def)
      next
        assume "Emitted e \<in> set tr2"
        with rest ck2 show ?thesis by blast
      qed
    qed
    from weeks order show ?thesis by blast
  qed
qed

lemma simulate_customer_items:
  assumes "simulate_customer w cfg events week_keys c st = Inr (tr, st')"
    and "Churned k \<in> set tr" and "Emitted e \<in> set tr"
  shows "e_wk_idx e < k"
proof (cases "week_keys = []")
  case True
  with assms show ?thesis by (simp add: simulate_customer_def)
next
  case False
  with assms(1) obtain s st0 where
    "weeks_loop w cfg events week_keys c [s ..< length week_keys] st0 = Inr (tr, st')"
    by (auto simp: simulate_customer_def Let_def split_beta)
  from weeks_loop_items [OF _ this] assms(2,3) show ?thesis
    by simp
qed

lemma customers_loop_rows:
  "customers_loop w cfg events week_keys row cs st = Inr (tr, st') \<Longrightarrow>
     \<forall>x \<in> set tr. row \<le> fst x"
proof (induction cs arbitrary: st tr row)
  case Nil
  then show ?case by simp
next
  case (Cons c cs)
  from Cons.prems obtain tr1 st1 tr2 where
    cl: "customers_loop w cfg events week_keys (Suc row) cs st1 = Inr (tr2, st')" and
    tr: "tr = map (Pair row) tr1 @ tr2"
    by (auto simp: bind_res_Inr)
  from Cons.IH [OF cl] tr show ?case by fastforce
qed

lemma customers_loop_items:
  "customers_loop w cfg events week_keys row cs st = Inr (tr, st') \<Longrightarrow>
     (r, Churned k) \<in> set tr \<Longrightarrow> (r, Emitted e) \<in> set tr \<Longrightarrow> e_wk_idx e < k"
proof (induction cs arbitrary: st tr row)
  case Nil
  then show ?case by simp
next
  case (Cons c cs)
  from Cons.prems(1) obtain tr1 st1 tr2 where
    sc: "simulate_customer w cfg events week_keys c st = Inr (tr1, st1)" and
    cl: "customers_loop w cfg events week_keys (Suc row) cs st1 = Inr (tr2, st')" and
    tr: "tr = map (Pair row) tr1 @ tr2"
    by (auto simp: bind_res_Inr)
  note later = customers_loop_rows [OF cl]
  show ?case
  proof (cases "r = row")
    case True
    with later have "(r, Churned k) \<notin> set tr2" "(r, Emitted e) \<notin> set tr2" by fastforce+
    with Cons.prems(2,3) tr have "Churned k \<in> set tr1" "Emitted e \<in> set tr1" by auto
    with simulate_customer_items [OF sc] show ?thesis by blast
  next
    case False
    with Cons.prems(2,3) tr have "(r, Churned k) \<in> set tr2" "(r, Emitted e) \<in> set tr2" by auto
    with Cons.IH [OF cl] show ?thesis by blast
  qed
qed

lemma simulate_trace_items:
  assumes "simulate_trace w dim_event customers seed churn_cfg = Inr (tr, st)"
    and "(r, Churned k) \<in> set tr" and "(r, Emitted e) \<in> set tr"
  shows "e_wk_idx e < k"
  using assms unfolding simulate_trace_def Let_def by (rule customers_loop_items)

subsection \<open>The streak and the net profit of a week\<close>

lemma promo_decision_keeps_profit:
  "week_net_profit (snd (promo_decision c wk stake st)) = week_net_profit st"
  by (simp add: promo_decision_def Let_def split_beta)

lemma simulate_bet_state:
  assumes "simulate_bet w c wk we st = Inr (e, st')"
  shows "negative_net_streak st' = negative_net_streak st
       \<and> week_net_profit st' = week_net_profit st + entry_net e"
proof -
  from simulate_bet_Inr [rule_format, OF assms] obtain lid g5 p2 st1 where
    pd: "promo_decision c wk (b_stake_amount (e_bet e)) (st\<lparr> rng := g5, pyrand := p2, leg_id := lid \<rparr>)
      = (c_promo_cost (e_cost e), st1)" and
    st': "st' = st1\<lparr> week_net_profit := week_net_profit st1
                    + (b_stake_amount (e_bet e) - b_gross_payout (e_bet e) - c_promo_cost (e_cost e)
                       - c_payment_fee (e_cost e) - c_tax (e_cost e)),
                 bet_id := bet_id st1 + 1, last_bet_week_idx := Some wk \<rparr>"
    by auto
  let ?st0 = "st\<lparr> rng := g5, pyrand := p2, leg_id := lid \<rparr>"
  from pd have st1: "st1 = snd (promo_decision c wk (b_stake_amount (e_bet e)) ?st0)" by simp
  have "negative_net_streak st1 = negative_net_streak st" "week_net_profit st1 = week_net_profit st"
    unfolding st1 by (simp_all add: promo_decision_keeps promo_decision_keeps_profit)
  with st' show ?thesis by (simp add: entry_net_def)
qed

lemma bets_loop_state:
  "bets_loop w c wk we n st = Inr (es, st') \<Longrightarrow>
     length es = n \<and> negative_net_streak st' = negative_net_streak st
     \<and> week_net_profit st' = week_net_profit st + sum_list (map entry_net es)"
proof (induction n arbitrary: st es)
  case 0
  then show ?case by simp
next
  case (Suc n)
  from Suc.prems obtain e0 st1 es1 where
    b: "simulate_bet w c wk we st = Inr (e0, st1)" and
    r: "bets_loop w c wk we n st1 = Inr (es1, st')" and
    es: "es = e0 # es1"
    by (auto simp: bind_res_Inr)
  from simulate_bet_state [OF b] Suc.IH [OF r] es show ?case by simp
qed

lemma churn_check_keeps:
  "negative_net_streak (snd (churn_check cfg c wk st)) = negative_net_streak st"
  "last_bet_week_idx (snd (churn_check cfg c wk st)) = last_bet_week_idx st"
  by (simp_all add: churn_check_def split_beta)

section \<open>Properties of the calibration search\<close>

lemma simulate_ledger_reseeds:
  "simulate_ledger w dim_event customers seed churn_cfg py1
     = simulate_ledger w dim_event customers seed churn_cfg py2"
  by (simp add: simulate_ledger_def)

lemma calibrate_loop_reseeds:
  assumes "cells \<noteq> []"
  shows "calibrate_loop w dim_event sample seed base_cfg cells bst py1
       = calibrate_loop w dim_event sample seed base_cfg cells bst py2"
proof -
  from assms obtain cell rest where cells: "cells = cell # rest" by (cases cells) auto
  show ?thesis
    unfolding cells calibrate_loop.simps Let_def
    by (simp only: simulate_ledger_reseeds [of w dim_event sample seed _ py1 py2])
qed

lemma grid_nonempty: "grid \<noteq> []"
  by (simp add: grid_def)



section \<open>The example run, evaluated\<close>

lemma ex_load: "load_events [final_game] = [final_game]"
  by (simp add: load_events_def final_game_def)

lemma ex_week_keys: "week_keys_of [final_game] = [(2010, 22)]"
  by (simp add: week_keys_of_def final_game_def week_int_def)

lemma ex_events_by_week: "events_by_week [final_game] (2010, 22) = [final_game]"
  by (simp add: events_by_week_def final_game_def week_int_def)

lemma high_u: "random_u (high_tape, n) = (9007199254740991 / 9007199254740992, (high_tape, Suc n))"
  by (simp add: random_u_def next_raw_def high_tape_def)

lemma zero_u: "random_u (zero_tape, n) = (0, (zero_tape, Suc n))"
  by (simp add: random_u_def next_raw_def zero_tape_def)

lemma zero_normal: "rng_normal a b (zero_tape, n) = (a, (zero_tape, Suc n))"
  by (simp add: rng_normal_def next_std_def zero_tape_def)

lemma zero_lognormal: "rng_lognormal (ln a) b (zero_tape, n) = (exp (ln a), (zero_tape, Suc n))"
  by (simp add: rng_lognormal_def next_std_def zero_tape_def)

lemma zero_integers: "lo < hi \<Longrightarrow> rng_integers lo hi (zero_tape, n) = (lo, (zero_tape, Suc n))"
  by (simp add: rng_integers_def next_raw_def zero_tape_def)

lemma zero_uniform: "rng_uniform a b (zero_tape, n) = (a, (zero_tape, Suc n))"
  by (simp add: rng_uniform_def zero_u)

lemma zero_poisson: "rng_poisson lam (zero_tape, n) = (0, (zero_tape, Suc n))"
  by (simp add: rng_poisson_def next_raw_def zero_tape_def)

lemma high_choices3:
  "choices [Moneyline, Spread, Total] [1 / 4, 9 / 20, 3 / 10] (high_tape, n)
     = Inr (Total, (high_tape, Suc n))"
  apply (simp add: choices_def accumulate_def high_u Let_def)
  apply (simp add: bisect.simps Let_def)
  done

lemma high_choices4:
  "choices [Moneyline, Spread, Total, Parlay] [3 / 10, 7 / 20, 1 / 4, 1 / 10] (high_tape, n)
     = Inr (Parlay, (high_tape, Suc n))"
  apply (simp add: choices_def accumulate_def high_u Let_def)
  apply (simp add: bisect.simps Let_def)
  done

lemma ex_leg:
  "simulate_leg Parlay final_game 1 1 (Suc 0) (zero_tape, n) (high_tape, m) =
     Inr (\<lparr> l_bet_leg_id = 1, l_bet_id = 1, l_leg_no = 1, l_event_id = 1,
            l_market_type = Total, l_selection = Over, l_line_value = Some 45,
            l_american_odds = - 114, l_decimal_odds = 107 / 57, l_is_win = True,
            l_is_push = False, l_settled_result = Win \<rparr>,
          (zero_tape, Suc (Suc (Suc n))), (high_tape, Suc m))"
  by (simp add: simulate_leg_def final_game_def leg_total_def total_points_def
        Let_def bind_res_def clip_def py_round_def american_to_decimal_def
        zero_u zero_normal high_choices3)

lemma sample_one: "sample_rows (Suc 0) [x] g = [x]"
  by (simp add: split_beta)

lemma ex_pick:
  "pick_leg_events example_prng Parlay [final_game] base (zero_tape, n)
     = ([final_game], (zero_tape, Suc (Suc n)))"
  by (simp add: pick_leg_events_def zero_integers Let_def sample_one)

lemma ex_stake: "draw_stake example_customer (zero_tape, n) = Inr (18, (zero_tape, Suc n))"
  by (simp add: draw_stake_def example_customer_def zero_lognormal clip_def)


lemma ex_settle:
  "settle_bet Parlay 18 [(Win, 107 / 57)] = Inr (642 / 19, Win, 107 / 57)"
  by (simp add: settle_bet_def parlay_mult_def Let_def)

lemma ex_promo:
  "promo_decision example_customer 0 18 (example_state n m\<lparr>leg_id := 2\<rparr>) =
     (513 / 2000, example_state (Suc (Suc (Suc n))) m\<lparr> leg_id := 2, last_promo_week_idx := Some 0,
         promo_week_history := [0], promo_effect_weeks_remaining := 5,
         promo_given_this_week := True \<rparr>)"
  by (simp add: promo_decision_def promo_prob_def example_state_def example_customer_def Let_def
      zero_u zero_uniform zero_integers dict_get_def promo_base_rate_def promo_cost_scale_def
      clip_def tenure_cost_mult_def promo_cap_def)

lemma ex_prefs:
  "[pref_moneyline example_customer, pref_spread example_customer, pref_total example_customer,
    pref_parlay example_customer] = [3 / 10, 7 / 20, 1 / 4, 1 / 10]"
  by (simp add: example_customer_def)

lemma ex_bet:
  "simulate_bet example_prng example_customer 0 [final_game] (example_state (Suc (Suc (Suc 0))) 0) =
     Inr (example_entry,
          example_final_state\<lparr> weeks_active := 0, negative_net_streak := 0,
             promo_effect_weeks_remaining := 5 \<rparr>)"
  apply (simp add: simulate_bet_def ex_prefs)
  apply (simp add: example_state_def high_choices4 ex_stake bind_res_def zero_integers zero_uniform Let_def
     ex_pick ex_leg ex_settle)
  apply (simp add: ex_promo [unfolded example_state_def, simplified])
  apply (simp add: example_entry_def example_bet_def example_leg_def example_cost_def
     example_final_state_def example_customer_def final_game_def)
  done

lemma ex_week:
  "week_step example_prng cfg [final_game] [(2010, 22)] example_customer 0 (example_state (Suc (Suc 0)) 0) =
     Inr ([Emitted example_entry], example_final_state)"
  apply (simp add: week_step_def churn_check_def example_state_def ex_events_by_week draw_n_bets_def
       zero_poisson Let_def)
  apply (simp add: ex_bet [unfolded example_state_def, simplified] bind_res_def week_end_def
       example_final_state_def)
  done

lemma ex_eligible: "dict_get promo_eligibility (segment example_customer) (1 / 2) = 17 / 25"
  by (simp add: dict_get_def promo_eligibility_def example_customer_def)

lemma ex_customer:
  "simulate_customer example_prng cfg [final_game] [(2010, 22)] example_customer
     (initial_state example_prng seed) =
     Inr ([Emitted example_entry], example_final_state)"
  apply (simp add: simulate_customer_def initial_state_def example_prng_def zero_integers zero_u
       Let_def ex_eligible)
  apply (simp add: example_prng_def [symmetric]
       ex_week [unfolded example_state_def, simplified] bind_res_def)
  done

lemma ex_trace:
  "simulate_trace example_prng [final_game] [example_customer] seed churn_cfg =
     Inr ([(0, Emitted example_entry)], example_final_state)"
  by (simp add: simulate_trace_def ex_load ex_week_keys ex_customer bind_res_def Let_def)

lemma ex_ledger:
  "simulate_ledger example_prng [final_game] [example_customer] seed churn_cfg py =
     Inr (([example_bet], [example_leg], [example_cost]), (high_tape, 2))"
  by (simp add: simulate_ledger_def ex_trace bind_res_def entries_of_def example_entry_def
        example_final_state_def)

lemma ex_generate: "generate_customers example_prng 1 seed = [example_customer]"
  apply (simp add: generate_customers_def example_prng_def upto.simps)
  apply (simp add: generate_customer_def rng_choice_def accumulate_def zero_u zero_uniform zero_normal
       Let_def seg_freq_def seg_stake_def example_customer_def)
  done

subsection \<open>The run on the calendar of two weeks\<close>

lemma ex_week_gen:
  assumes "week_keys ! 0 = (2010, 22)" and "events_by_week events (2010, 22) = [final_game]"
  shows "week_step example_prng cfg events week_keys example_customer 0 (example_state (Suc (Suc 0)) 0) =
     Inr ([Emitted example_entry], example_final_state)"
  using assms
  apply (simp add: week_step_def churn_check_def example_state_def draw_n_bets_def
       zero_poisson Let_def)
  apply (simp add: ex_bet [unfolded example_state_def, simplified] bind_res_def week_end_def
       example_final_state_def)
  done

lemma two_load: "load_events [final_game, opening_game] = [final_game, opening_game]"
  by (simp add: load_events_def final_game_def opening_game_def week_int_def)

lemma two_week_keys: "week_keys_of [final_game, opening_game] = [(2010, 22), (2011, 1)]"
  by (simp add: week_keys_of_def final_game_def opening_game_def week_int_def)

lemma two_events_by_week:
  "events_by_week [final_game, opening_game] (2010, 22) = [final_game]"
  by (simp add: events_by_week_def final_game_def opening_game_def week_int_def)

lemma default_churn_prob_pos: "0 < churn_prob DEFAULT_CHURN_CONFIG seg wk st"
proof -
  have "min_churn DEFAULT_CHURN_CONFIG \<le> churn_prob DEFAULT_CHURN_CONFIG seg wk st"
    unfolding churn_prob_def Let_def
    by (rule clip_bounds [THEN conjunct1]) (simp add: DEFAULT_CHURN_CONFIG_def)
  then show ?thesis by (simp add: DEFAULT_CHURN_CONFIG_def)
qed

lemma two_week_churn:
  "week_step example_prng DEFAULT_CHURN_CONFIG events week_keys example_customer (Suc 0) example_final_state
     = Inr ([Churned (Suc 0)], churned_final_state)"
  by (simp add: week_step_def churn_check_def example_final_state_def zero_u Let_def
       default_churn_prob_pos churned_final_state_def)

lemma ex_final_not_churned: "has_churned example_final_state = False"
  by (simp add: example_final_state_def)

lemma two_customer:
  "simulate_customer example_prng DEFAULT_CHURN_CONFIG [final_game, opening_game]
     [(2010, 22), (2011, 1)] example_customer (initial_state example_prng seed) =
     Inr ([Emitted example_entry, Churned 1], churned_final_state)"
  apply (simp add: simulate_customer_def initial_state_def example_prng_def zero_integers zero_u
       Let_def ex_eligible upt_rec)
  apply (simp add: example_prng_def [symmetric] two_events_by_week
       ex_week_gen [unfolded example_state_def, simplified] bind_res_def)
  apply (simp add: two_week_churn ex_final_not_churned)
  done

lemma two_trace:
  "simulate_trace example_prng [final_game, opening_game] [example_customer] seed None =
     Inr ([(0, Emitted example_entry), (0, Churned 1)], churned_final_state)"
  by (simp add: simulate_trace_def two_load two_week_keys two_customer bind_res_def Let_def)

subsection \<open>A second week without a bet\<close>

lemma calm_u: "random_u (calm_tape, 0) = (9007199254740991 / 9007199254740992, (calm_tape, Suc 0))"
  by (simp add: random_u_def next_raw_def calm_tape_def)

lemma calm_poisson: "rng_poisson lam (calm_tape, Suc 0) = (0, (calm_tape, Suc (Suc 0)))"
  by (simp add: rng_poisson_def next_raw_def calm_tape_def)

lemma default_churn_prob_le: "churn_prob DEFAULT_CHURN_CONFIG seg wk st \<le> 13 / 20"
proof -
  have "churn_prob DEFAULT_CHURN_CONFIG seg wk st \<le> max_churn DEFAULT_CHURN_CONFIG"
    unfolding churn_prob_def Let_def
    by (rule clip_bounds [THEN conjunct2]) (simp add: DEFAULT_CHURN_CONFIG_def)
  then show ?thesis by (simp add: DEFAULT_CHURN_CONFIG_def)
qed

lemma calm_no_churn:
  "churn_check DEFAULT_CHURN_CONFIG example_customer (Suc 0) (example_final_state\<lparr> rng := (calm_tape, 0) \<rparr>)
     = (False, example_final_state\<lparr> rng := (calm_tape, Suc 0) \<rparr>)"
proof -
  have "\<not> 9007199254740991 / 9007199254740992
          < churn_prob DEFAULT_CHURN_CONFIG seg (Suc 0) st" for seg st
    using default_churn_prob_le [of seg "Suc 0" st] by simp
  then show ?thesis
    by (simp add: churn_check_def example_final_state_def calm_u)
qed

lemma two_events_by_week_opening:
  "events_by_week [final_game, opening_game] (2011, 1) = [opening_game]"
  by (simp add: events_by_week_def final_game_def opening_game_def week_int_def)

lemma quiet_week:
  "week_step example_prng DEFAULT_CHURN_CONFIG [final_game, opening_game] [(2010, 22), (2011, 1)]
     example_customer 1 (example_final_state\<lparr> rng := (calm_tape, 0) \<rparr>)
     = Inr ([], quiet_week_state)"
  apply (simp add: week_step_def calm_no_churn two_events_by_week_opening)
  apply (simp add: draw_n_bets_def example_final_state_def calm_poisson week_no_bets_def
       quiet_week_state_def)
  done

subsection \<open>Runs on an empty calendar\<close>








section \<open>The claims\<close>

subsection \<open>C1: the churn probability is clamped\<close>




subsection \<open>C2: the payout of a parlay\<close>

text \<open>
  C2. For every parlay bet of the bets frame, the gross payout is 0 if one of the bet's
  legs in the legs frame is settled as a loss; otherwise it is the stake times the
  product over the bet's legs of the decimal odds of the winning legs, a pushed leg
  counting as the factor 1.
\<close>

theorem parlay_payout:
  assumes run: "simulate_ledger w dim_event customers seed churn_cfg py = Inr ((bets, legs, costs), py')"
    and b: "b \<in> set bets"
    and parlay: "b_bet_type b = Parlay"
  shows "b_gross_payout b =
    (if list_ex (\<lambda>l. l_settled_result l = Lose) (legs_of legs b) then 0
     else b_stake_amount b
            * prod_list (map (\<lambda>l. if l_settled_result l = Win then l_decimal_odds l else 1)
                           (legs_of legs b)))"
proof -
  from ledger_bet_legs [OF run b] obtain tr st e where
    tr: "simulate_trace w dim_event customers seed churn_cfg = Inr (tr, st)" and
    e: "e \<in> set (entries_of tr)" and be: "b = e_bet e" and
    legs: "legs_of legs b = e_legs e"
    by blast
  have "b_bet_type (e_bet e) = Parlay \<longrightarrow> b_gross_payout (e_bet e) =
    (if list_ex (\<lambda>l. l_settled_result l = Lose) (e_legs e) then 0
     else b_stake_amount (e_bet e)
            * prod_list (map (\<lambda>l. if l_settled_result l = Win then l_decimal_odds l else 1) (e_legs e)))"
    by (rule simulate_trace_entries
          [where P = "\<lambda>e. b_bet_type (e_bet e) = Parlay \<longrightarrow> b_gross_payout (e_bet e) =
             (if list_ex (\<lambda>l. l_settled_result l = Lose) (e_legs e) then 0
              else b_stake_amount (e_bet e)
                * prod_list (map (\<lambda>l. if l_settled_result l = Win then l_decimal_odds l else 1) (e_legs e)))",
           OF _ tr e])
       (rule impI, erule (1) simulate_bet_parlay)
  with be legs parlay show ?thesis by simp
qed

theorem parlay_payout_witness:
  "simulate_ledger example_prng [final_game] [example_customer] 7 None (zero_tape, 0)
     = Inr (([example_bet], [example_leg], [example_cost]), (high_tape, 2))
   \<and> example_bet \<in> set [example_bet]
   \<and> b_bet_type example_bet = Parlay
   \<and> b_gross_payout example_bet =
       (if list_ex (\<lambda>l. l_settled_result l = Lose) (legs_of [example_leg] example_bet) then 0
        else b_stake_amount example_bet
               * prod_list (map (\<lambda>l. if l_settled_result l = Win then l_decimal_odds l else 1)
                              (legs_of [example_leg] example_bet)))"
proof -
  have run: "simulate_ledger example_prng [final_game] [example_customer] 7 None (zero_tape, 0)
     = Inr (([example_bet], [example_leg], [example_cost]), (high_tape, 2))"
    by (rule ex_ledger)
  have mem: "example_bet \<in> set [example_bet]" by simp
  have parlay: "b_bet_type example_bet = Parlay" by (simp add: example_bet_def)
  from parlay_payout [OF run mem parlay] run mem parlay show ?thesis by simp
qed

subsection \<open>C3: churn is terminal\<close>

text \<open>
  C3. The log of a run records, for the customer of each row of the customers frame, the
  week index at which the churn draw succeeded (\<open>Churned k\<close>, at which \<open>has_churned\<close>
  is set) and the week index of each bet. Once the customer of a row has churned at week
  \<open>k\<close>, every bet of that customer in the run was placed at a week before \<open>k\<close>: no bet is
  emitted in week \<open>k\<close> or at any later week.
\<close>

theorem churn_is_terminal:
  assumes "simulate_trace w dim_event customers seed churn_cfg = Inr (tr, st)"
    and "(row, Churned k) \<in> set tr"
    and "(row, Emitted e) \<in> set tr"
  shows "e_wk_idx e < k"
  using assms by (rule simulate_trace_items)

theorem churn_is_terminal_witness:
  "simulate_trace example_prng [final_game, opening_game] [example_customer] 7 None
     = Inr ([(0, Emitted example_entry), (0, Churned 1)], churned_final_state)
   \<and> (0, Churned 1) \<in> set [(0, Emitted example_entry), (0, Churned 1)]
   \<and> (0, Emitted example_entry) \<in> set [(0, Emitted example_entry), (0, Churned 1)]
   \<and> e_wk_idx example_entry < 1"
proof -
  have run: "simulate_trace example_prng [final_game, opening_game] [example_customer] 7 None
     = Inr ([(0, Emitted example_entry), (0, Churned 1)], churned_final_state)"
    by (rule two_trace)
  have c: "(0, Churned 1) \<in> set [(0, Emitted example_entry), (0, Churned 1)]" by simp
  have b: "(0, Emitted example_entry) \<in> set [(0, Emitted example_entry), (0, Churned 1)]" by simp
  from churn_is_terminal [OF run c b] run c b show ?thesis by simp
qed

subsection \<open>C4: the promotional cost is capped by tenure\<close>

text \<open>
  C4. For every bet the simulator logs, the promotional cost of the bet's cost row is at
  most the stake times the cap fraction \<open>promo_cap\<close> of the customer's tenure
  (\<open>weeks_active\<close>) at the time of the bet: 0.14 below 8 weeks, 0.09 below 20 weeks,
  0.06 from then on. The cost row carries the bet's id.
\<close>

theorem promo_cost_capped:
  assumes run: "simulate_trace w dim_event customers seed churn_cfg = Inr (tr, st)"
    and e: "e \<in> set (entries_of tr)"
  shows "c_promo_cost (e_cost e) \<le> b_stake_amount (e_bet e) * promo_cap (e_weeks_active e)
         \<and> c_bet_id (e_cost e) = b_bet_id (e_bet e)"
  by (rule simulate_trace_entries
        [where P = "\<lambda>e. c_promo_cost (e_cost e) \<le> b_stake_amount (e_bet e) * promo_cap (e_weeks_active e)
                       \<and> c_bet_id (e_cost e) = b_bet_id (e_bet e)", OF _ run e])
     (rule simulate_bet_promo)

theorem promo_cost_capped_witness:
  "simulate_trace example_prng [final_game] [example_customer] 7 None
     = Inr ([(0, Emitted example_entry)], example_final_state)
   \<and> example_entry \<in> set (entries_of [(0, Emitted example_entry)])
   \<and> c_promo_cost (e_cost example_entry)
       \<le> b_stake_amount (e_bet example_entry) * promo_cap (e_weeks_active example_entry)
   \<and> c_bet_id (e_cost example_entry) = b_bet_id (e_bet example_entry)"
proof -
  have run: "simulate_trace example_prng [final_game] [example_customer] 7 None
     = Inr ([(0, Emitted example_entry)], example_final_state)"
    by (rule ex_trace)
  have mem: "example_entry \<in> set (entries_of [(0, Emitted example_entry)])"
    by (simp add: entries_of_def)
  from promo_cost_capped [OF run mem] run mem show ?thesis by simp
qed

subsection \<open>C5: the result of the calibration search\<close>




subsection \<open>C6: the calibration search is deterministic\<close>

text \<open>
  C6. The result of the calibration search is a function of the customers frame, the
  calendar, the base configuration and the seed (the grid is fixed): it does not depend
  on the state in which the call finds the \<open>random\<close> module, the only state that
  outlives a call, because every simulation run reseeds both generators. Two invocations
  with the same arguments therefore return the same best configuration, retention and
  score, whatever ran in between.
\<close>

theorem calibration_deterministic:
  "calibrate_churn_config w dim_event customers base_cfg seed py1
     = calibrate_churn_config w dim_event customers base_cfg seed py2"
  unfolding calibrate_churn_config_def Let_def
  by (simp only: calibrate_loop_reseeds [OF grid_nonempty, of w dim_event _ seed base_cfg _ py1 py2])

subsection \<open>C8: the streak of weeks with negative net profit\<close>

text \<open>
  C8, as amended. For a week the customer passes through without churning: if the
  customer placed at least one bet, the streak is reset to 0 when the sum of the net
  profits of the week's bets is non-negative, and is otherwise incremented by 1 up to the
  cap 8; if the week has events and the customer placed no bet, the streak is incremented
  by 1 up to the cap 6 when the last week with a bet lies at least two weeks back, and
  is otherwise unchanged; in a week without events it is unchanged.
\<close>

theorem week_end_streak:
  assumes ws: "week_step w cfg events week_keys c wk st = Inr (tr, st')"
    and nochurn: "\<not> fst (churn_check cfg c wk st)"
  shows "negative_net_streak st' =
    (if emitted_of tr \<noteq> []
     then (if sum_list (map entry_net (emitted_of tr)) < 0
           then min (negative_net_streak st + 1) 8 else 0)
     else if events_by_week events (week_keys ! wk) \<noteq> [] \<and> inactive_two_weeks wk st
     then min (negative_net_streak st + 1) 6
     else negative_net_streak st)"
proof -
  obtain churns st1 where cc: "churn_check cfg c wk st = (churns, st1)"
    by (cases "churn_check cfg c wk st")
  with nochurn have nc: "\<not> churns" by simp
  from cc churn_check_keeps [of cfg c wk st]
  have keep: "negative_net_streak st1 = negative_net_streak st"
    "last_bet_week_idx st1 = last_bet_week_idx st" by simp_all
  obtain n g2 where dn: "draw_n_bets c (snd (week_keys ! wk)) st1 = (n, g2)"
    by (cases "draw_n_bets c (snd (week_keys ! wk)) st1")
  show ?thesis
  proof (cases "events_by_week events (week_keys ! wk) = []")
    case True
    with ws cc nc keep show ?thesis by (auto simp: week_step_def Let_def)
  next
    case events: False
    show ?thesis
    proof (cases "n \<le> 0")
      case True
      with ws cc nc dn events have "tr = []" and "st' = week_no_bets wk (st1\<lparr>rng := g2\<rparr>)"
        by (auto simp: week_step_def Let_def)
      with keep events show ?thesis
        by (simp add: week_no_bets_def inactive_two_weeks_def)
    next
      case False
      with ws cc nc dn events obtain es st3 where
        bl: "bets_loop w c wk (events_by_week events (week_keys ! wk)) (nat n)
               (st1\<lparr>rng := g2, week_net_profit := 0.0, promo_given_this_week := False\<rparr>) = Inr (es, st3)"
        and tr: "tr = map Emitted es" and st': "st' = week_end st3"
        by (auto simp: week_step_def Let_def bind_res_Inr)
      from bets_loop_state [OF bl] keep False have
        "es \<noteq> []" "negative_net_streak st3 = negative_net_streak st"
        "week_net_profit st3 = sum_list (map entry_net es)"
        by auto
      with tr st' show ?thesis by (simp add: week_end_def)
    qed
  qed
qed

theorem week_end_streak_witness:
  "week_step example_prng DEFAULT_CHURN_CONFIG [final_game] [(2010, 22)] example_customer 0
       (example_state 2 0)
     = Inr ([Emitted example_entry], example_final_state)
   \<and> \<not> fst (churn_check DEFAULT_CHURN_CONFIG example_customer 0 (example_state 2 0))
   \<and> negative_net_streak example_final_state =
       (if emitted_of [Emitted example_entry] \<noteq> []
        then (if sum_list (map entry_net (emitted_of [Emitted example_entry])) < 0
              then min (negative_net_streak (example_state 2 0) + 1) 8 else 0)
        else if events_by_week [final_game] ([(2010, 22)] ! 0) \<noteq> []
                  \<and> inactive_two_weeks 0 (example_state 2 0)
        then min (negative_net_streak (example_state 2 0) + 1) 6
        else negative_net_streak (example_state 2 0))"
proof -
  have run: "week_step example_prng DEFAULT_CHURN_CONFIG [final_game] [(2010, 22)] example_customer 0
       (example_state 2 0)
     = Inr ([Emitted example_entry], example_final_state)"
    using ex_week [of DEFAULT_CHURN_CONFIG] by (simp add: numeral_2_eq_2)
  have nochurn: "\<not> fst (churn_check DEFAULT_CHURN_CONFIG example_customer 0 (example_state 2 0))"
    by (simp add: churn_check_def example_state_def)
  from week_end_streak [OF run nochurn] run nochurn show ?thesis by simp
qed

text \<open>
  The claim as stated fails in a week in which the customer places no bet. In the second
  week of the example customer the churn draw fails and the Poisson draw gives no bet:
  the week has no net loss, and the streak stays at 1 instead of being reset.
\<close>

theorem streak_kept_in_week_without_bets:
  "week_step example_prng DEFAULT_CHURN_CONFIG [final_game, opening_game]
       [(2010, 22), (2011, 1)] example_customer 1 (example_final_state\<lparr> rng := (calm_tape, 0) \<rparr>)
     = Inr ([], quiet_week_state)
   \<and> \<not> fst (churn_check DEFAULT_CHURN_CONFIG example_customer 1
               (example_final_state\<lparr> rng := (calm_tape, 0) \<rparr>))
   \<and> \<not> has_churned quiet_week_state
   \<and> \<not> sum_list (map entry_net (emitted_of [])) < 0
   \<and> negative_net_streak (example_final_state\<lparr> rng := (calm_tape, 0) \<rparr>) = 1
   \<and> negative_net_streak quiet_week_state = 1
   \<and> negative_net_streak quiet_week_state \<noteq> 0"
proof -
  have run: "week_step example_prng DEFAULT_CHURN_CONFIG [final_game, opening_game]
       [(2010, 22), (2011, 1)] example_customer 1 (example_final_state\<lparr> rng := (calm_tape, 0) \<rparr>)
     = Inr ([], quiet_week_state)"
    by (rule quiet_week)
  have nochurn: "\<not> fst (churn_check DEFAULT_CHURN_CONFIG example_customer 1
               (example_final_state\<lparr> rng := (calm_tape, 0) \<rparr>))"
    using calm_no_churn by simp
  have rest: "\<not> has_churned quiet_week_state
     \<and> \<not> sum_list (map entry_net (emitted_of [])) < 0
     \<and> negative_net_streak (example_final_state\<lparr> rng := (calm_tape, 0) \<rparr>) = 1
     \<and> negative_net_streak quiet_week_state = 1
     \<and> negative_net_streak quiet_week_state \<noteq> 0"
    by (simp add: quiet_week_state_def example_final_state_def)
  from run nochurn rest show ?thesis by blast
qed

subsection \<open>C9: the number of legs of a bet\<close>




subsection \<open>C10: the stake lies between 5 and 2000\<close>

text \<open>
  C10. In every run of the ledger simulator that returns, for every customers frame,
  calendar, seed and configuration, the stake of every bet of the bets frame lies in
  \<open>[5, 2000]\<close>: the log-normal draw is clipped to these two constants.
\<close>

theorem stake_in_sane_range:
  assumes run: "simulate_ledger w dim_event customers seed churn_cfg py = Inr ((bets, legs, costs), py')"
    and b: "b \<in> set bets"
  shows "5 \<le> b_stake_amount b \<and> b_stake_amount b \<le> 2000"
proof -
  from ledger_bet_legs [OF run b] obtain tr st e where
    tr: "simulate_trace w dim_event customers seed churn_cfg = Inr (tr, st)" and
    e: "e \<in> set (entries_of tr)" and be: "b = e_bet e"
    by blast
  have "5 \<le> b_stake_amount (e_bet e) \<and> b_stake_amount (e_bet e) \<le> 2000"
    by (rule simulate_trace_entries
          [where P = "\<lambda>e. 5 \<le> b_stake_amount (e_bet e) \<and> b_stake_amount (e_bet e) \<le> 2000", OF _ tr e])
       (rule simulate_bet_stake)
  with be show ?thesis by simp
qed

theorem stake_in_sane_range_witness:
  "simulate_ledger example_prng [final_game] [example_customer] 7 None (zero_tape, 0)
     = Inr (([example_bet], [example_leg], [example_cost]), (high_tape, 2))
   \<and> example_bet \<in> set [example_bet]
   \<and> 5 \<le> b_stake_amount example_bet \<and> b_stake_amount example_bet \<le> 2000"
proof -
  have run: "simulate_ledger example_prng [final_game] [example_customer] 7 None (zero_tape, 0)
     = Inr (([example_bet], [example_leg], [example_cost]), (high_tape, 2))"
    by (rule ex_ledger)
  have mem: "example_bet \<in> set [example_bet]" by simp
  from stake_in_sane_range [OF run mem] run mem show ?thesis by simp
qed

end
